theory Spec2Isabelle
  imports Complex_Main "HOL-Library.Multiset" "HOL-Library.Sublist" "HOL-Library.Word"
begin

unbundle bit_operations_syntax

section \<open>JavaScript values\<close>

text \<open>
  The query utilities of \<^verbatim>\<open>src/utils.ts\<close> work on untyped JavaScript values
  (\<^verbatim>\<open>any\<close>). The values are modelled as immutable trees. A number is an IEEE double
  read as the real number it stands for, or one of the three special values; only
  comparisons of numbers occur in the code modelled here, and those are exact.
  An object is the list of its own enumerable properties in enumeration order
  (the order of \<^verbatim>\<open>for ... in\<close> and of \<^verbatim>\<open>_.keys\<close>); reading a key takes the
  first entry of that name. Members inherited from the built-in prototypes
  (methods, \<^verbatim>\<open>constructor\<close>) are not values of this type. The property names
  the code itself writes down (\<^verbatim>\<open>type\<close>, \<^verbatim>\<open>coordinates\<close>, \<^verbatim>\<open>_id\<close>, the names
  of the options and of the operators) are not names of such members. Where the
  code reads a name the caller has chosen and hands the value on, in the field
  paths of a projection, the read of an inherited member is marked as outside
  the model. (The geospatial stages read the document under a key of the
  selector only to test the \<^verbatim>\<open>type\<close> of what they find: an inherited member
  has none, no more than a missing property, and the document is dropped
  either way.) Values are immutable trees here; the one function that changes
  its arguments in place, \<^verbatim>\<open>regularizeUpsert\<close>, is modelled over a store of
  objects further down.
\<close>

datatype jsnum = NaN | NInf | Fin real | PInf

datatype json =
    JUndef
  | JNull
  | JBool bool
  | JNum jsnum
  | JStr string
  | JArr "json list"
  | JObj "(string \<times> json) list"

text \<open>
  The errors the code throws: a \<^verbatim>\<open>TypeError\<close> of the language (a property read of
  \<^verbatim>\<open>null\<close> or \<^verbatim>\<open>undefined\<close>, a property write on a primitive in strict mode,
  iterating a value that is not iterable, deleting a property that cannot be
  deleted), the \<^verbatim>\<open>SyntaxError\<close> of \<^verbatim>\<open>JSON.parse\<close>, and the three
  \<^verbatim>\<open>throw new Error(...)\<close> of the file. \<open>OutsideModel\<close> is not an error of the program: it marks the inputs
  whose behaviour the value model does not represent (coercion of a string to a
  number, a named property stored on an array, a member inherited from a
  prototype), so that no result is invented for them.
\<close>

datatype error =
    TypeError
  | UnsupportedType
  | BaseNeedsId
  | BaseNeedsSameId
  | SyntaxError
  | OutsideModel

definition bindE :: "error + 'a \<Rightarrow> ('a \<Rightarrow> error + 'b) \<Rightarrow> error + 'b" where
  "bindE m f = (case m of Inl e \<Rightarrow> Inl e | Inr x \<Rightarrow> f x)"

subsection \<open>Numbers\<close>

text \<open>\<^verbatim>\<open>a <= b\<close> on numbers: false as soon as one side is \<^verbatim>\<open>NaN\<close>.\<close>

fun num_le :: "jsnum \<Rightarrow> jsnum \<Rightarrow> bool" where
  "num_le NaN b = False"
| "num_le a NaN = False"
| "num_le NInf b = True"
| "num_le a PInf = True"
| "num_le (Fin x) (Fin y) = (x \<le> y)"
| "num_le a b = False"

text \<open>\<^verbatim>\<open>a >= b\<close> is \<^verbatim>\<open>b <= a\<close> on numbers.\<close>

definition num_ge :: "jsnum \<Rightarrow> jsnum \<Rightarrow> bool" where
  "num_ge a b = num_le b a"

definition num_lt :: "jsnum \<Rightarrow> jsnum \<Rightarrow> bool" where
  "num_lt a b = (num_le a b \<and> a \<noteq> b)"

subsection \<open>Truthiness and property reads\<close>

fun truthy :: "json \<Rightarrow> bool" where
  "truthy JUndef = False"
| "truthy JNull = False"
| "truthy (JBool b) = b"
| "truthy (JNum n) = (n \<noteq> NaN \<and> n \<noteq> Fin 0)"
| "truthy (JStr s) = (s \<noteq> [])"
| "truthy (JArr xs) = True"
| "truthy (JObj kvs) = True"

text \<open>\<^verbatim>\<open>v == null\<close>: true of \<^verbatim>\<open>null\<close> and \<^verbatim>\<open>undefined\<close> only.\<close>

fun nullish :: "json \<Rightarrow> bool" where
  "nullish JUndef = True"
| "nullish JNull = True"
| "nullish v = False"

text \<open>Decimal strings, for the index properties of arrays and strings.\<close>

fun first_index :: "'a \<Rightarrow> 'a list \<Rightarrow> nat option" where
  "first_index c [] = None"
| "first_index c (x # xs) = (if c = x then Some 0 else map_option Suc (first_index c xs))"

definition digit_of :: "char \<Rightarrow> nat option" where
  "digit_of c = first_index c ''0123456789''"

fun parse_digits :: "nat \<Rightarrow> string \<Rightarrow> nat option" where
  "parse_digits acc [] = Some acc"
| "parse_digits acc (c # cs) =
     (case digit_of c of None \<Rightarrow> None | Some d \<Rightarrow> parse_digits (10 * acc + d) cs)"

text \<open>
  A key is an array index when it is the canonical decimal form of a natural
  number: \<^verbatim>\<open>"0"\<close>, or digits that do not start with \<^verbatim>\<open>0\<close>.
\<close>

definition parse_index :: "string \<Rightarrow> nat option" where
  "parse_index s =
     (case s of
        [] \<Rightarrow> None
      | c # cs \<Rightarrow> if c = CHR ''0'' \<and> cs \<noteq> [] then None else parse_digits 0 s)"

definition digit_char :: "nat \<Rightarrow> char" where
  "digit_char d = ''0123456789'' ! d"

fun show_nat :: "nat \<Rightarrow> string" where
  "show_nat n = (if n < 10 then [digit_char n] else show_nat (n div 10) @ [digit_char (n mod 10)])"

declare show_nat.simps [simp del]

definition obj_get :: "(string \<times> json) list \<Rightarrow> string \<Rightarrow> json" where
  "obj_get kvs k = (case map_of kvs k of None \<Rightarrow> JUndef | Some v \<Rightarrow> v)"

text \<open>
  \<^verbatim>\<open>v[k]\<close> for a value that is neither \<^verbatim>\<open>null\<close> nor \<^verbatim>\<open>undefined\<close>: an own
  property of an object, \<^verbatim>\<open>length\<close> or an element of an array, \<^verbatim>\<open>length\<close> or a
  character of a string, and \<^verbatim>\<open>undefined\<close> on a number or a boolean.
\<close>

fun readProp :: "json \<Rightarrow> string \<Rightarrow> json" where
  "readProp (JObj kvs) k = obj_get kvs k"
| "readProp (JArr xs) k =
     (if k = ''length'' then JNum (Fin (real (length xs)))
      else case parse_index k of
             None \<Rightarrow> JUndef
           | Some i \<Rightarrow> if i < length xs then xs ! i else JUndef)"
| "readProp (JStr s) k =
     (if k = ''length'' then JNum (Fin (real (length s)))
      else case parse_index k of
             None \<Rightarrow> JUndef
           | Some i \<Rightarrow> if i < length s then JStr [s ! i] else JUndef)"
| "readProp v k = JUndef"

text \<open>\<^verbatim>\<open>v[k]\<close> in general: reading a property of \<^verbatim>\<open>null\<close> or \<^verbatim>\<open>undefined\<close> throws.\<close>

definition get_prop :: "json \<Rightarrow> string \<Rightarrow> error + json" where
  "get_prop v k = (if nullish v then Inl TypeError else Inr (readProp v k))"

text \<open>The pairs \<^verbatim>\<open>(key, v[key])\<close> that \<^verbatim>\<open>for (var key in v)\<close> goes through.\<close>

fun for_in :: "json \<Rightarrow> (string \<times> json) list" where
  "for_in (JObj kvs) = map (\<lambda>k. (k, obj_get kvs k)) (map fst kvs)"
| "for_in (JArr xs) = map (\<lambda>i. (show_nat i, xs ! i)) [0..<length xs]"
| "for_in (JStr s) = map (\<lambda>i. (show_nat i, JStr [s ! i])) [0..<length s]"
| "for_in v = []"

subsection \<open>Sequential filter and map with a callback that may throw\<close>

fun filterE :: "('a \<Rightarrow> error + bool) \<Rightarrow> 'a list \<Rightarrow> error + 'a list" where
  "filterE p [] = Inr []"
| "filterE p (x # xs) =
     bindE (p x) (\<lambda>b. bindE (filterE p xs) (\<lambda>ys. Inr (if b then x # ys else ys)))"

fun mapE :: "('a \<Rightarrow> error + 'b) \<Rightarrow> 'a list \<Rightarrow> error + 'b list" where
  "mapE f [] = Inr []"
| "mapE f (x # xs) = bindE (f x) (\<lambda>y. bindE (mapE f xs) (\<lambda>ys. Inr (y # ys)))"

section \<open>The collaborators outside the file\<close>

text \<open>
  \<^verbatim>\<open>utils.ts\<close> imports the selector and sort compilers from \<^verbatim>\<open>./selector\<close> and the
  geometry primitives from turf.js. Neither is part of the sources at hand; they
  are parameters of the model, consumed as pure functions the way the
  specification puts it. \<open>nearestPointOnLine\<close> stands for the \<^verbatim>\<open>properties.dist\<close>
  of the feature the turf function returns, \<open>intersect\<close> for the test
  \<^verbatim>\<open>intersect(a, b) != null\<close>.
\<close>

record externals =
  compileDocumentSelector :: "json \<Rightarrow> json \<Rightarrow> bool"
  compileSort :: "json \<Rightarrow> json \<Rightarrow> json \<Rightarrow> int"
  distance :: "json \<Rightarrow> json \<Rightarrow> jsnum"
  nearestPointOnLine :: "json \<Rightarrow> json \<Rightarrow> jsnum"
  booleanPointInPolygon :: "json \<Rightarrow> json \<Rightarrow> bool"
  intersect :: "json \<Rightarrow> json \<Rightarrow> bool"
  booleanCrosses :: "json \<Rightarrow> json \<Rightarrow> bool"
  booleanWithin :: "json \<Rightarrow> json \<Rightarrow> bool"

section \<open>The \<^verbatim>\<open>$near\<close> stage\<close>

text \<open>
  The test both stages make on the value under a key of the selector,
  \<^verbatim>\<open>value != null && value[op]\<close>, and the geometry they then read,
  \<^verbatim>\<open>value[op]["$geometry"]\<close>.
\<close>

definition hasOperator :: "string \<Rightarrow> json \<Rightarrow> bool" where
  "hasOperator op value = (\<not> nullish value \<and> truthy (readProp value op))"

definition geometryOf :: "string \<Rightarrow> json \<Rightarrow> json" where
  "geometryOf op value = readProp (readProp value op) ''$geometry''"

definition getDistance :: "externals \<Rightarrow> json \<Rightarrow> json \<Rightarrow> error + jsnum" where
  "getDistance E from to =
     bindE (get_prop to ''type'') (\<lambda>t.
       if t = JStr ''Point'' then Inr (distance E from to)
       else if t = JStr ''LineString'' then Inr (nearestPointOnLine E to from)
       else Inl UnsupportedType)"

text \<open>
  \<^verbatim>\<open>_.sortBy(distances, "distance")\<close>: lodash sorts stably in ascending order of
  the key. Its comparison of two numbers puts \<^verbatim>\<open>NaN\<close> last.
\<close>

definition compareAscending :: "jsnum \<Rightarrow> jsnum \<Rightarrow> int" where
  "compareAscending a b =
     (if a = b \<and> a \<noteq> NaN then 0
      else if a = NaN then 1
      else if num_lt b a then 1
      else if b = NaN then - 1
      else if num_lt a b then - 1
      else 0)"

fun insertBy :: "('a \<Rightarrow> 'a \<Rightarrow> int) \<Rightarrow> 'a \<Rightarrow> 'a list \<Rightarrow> 'a list" where
  "insertBy cmp x [] = [x]"
| "insertBy cmp x (y # ys) = (if cmp x y \<le> 0 then x # y # ys else y # insertBy cmp x ys)"

text \<open>
  A stable sort by a comparator (\<^verbatim>\<open>Array.prototype.sort\<close>, and the sort inside
  \<^verbatim>\<open>_.sortBy\<close>): every element is placed before the first later element that it
  does not exceed.
\<close>

definition stableSort :: "('a \<Rightarrow> 'a \<Rightarrow> int) \<Rightarrow> 'a list \<Rightarrow> 'a list" where
  "stableSort cmp xs = foldr (insertBy cmp) xs []"

text \<open>
  \<^verbatim>\<open>array.sort(cmp)\<close>: the language sorts stably and moves every \<^verbatim>\<open>undefined\<close>
  element to the end without showing it to the comparator.
\<close>

definition arraySort :: "(json \<Rightarrow> json \<Rightarrow> int) \<Rightarrow> json list \<Rightarrow> json list" where
  "arraySort cmp xs = stableSort cmp (filter (\<lambda>x. x \<noteq> JUndef) xs) @ filter (\<lambda>x. x = JUndef) xs"

text \<open>
  A comparator orders a set of values when it compares any two of them and is
  transitive on them.
\<close>

definition orders :: "('a \<Rightarrow> 'a \<Rightarrow> int) \<Rightarrow> 'a set \<Rightarrow> bool" where
  "orders cmp S \<longleftrightarrow>
     (\<forall>a\<in>S. \<forall>b\<in>S. cmp a b \<le> 0 \<or> cmp b a \<le> 0) \<and>
     (\<forall>a\<in>S. \<forall>b\<in>S. \<forall>c\<in>S. cmp a b \<le> 0 \<longrightarrow> cmp b c \<le> 0 \<longrightarrow> cmp a c \<le> 0)"

definition sortByDistance :: "(json \<times> jsnum) list \<Rightarrow> (json \<times> jsnum) list" where
  "sortByDistance ds = stableSort (\<lambda>a b. compareAscending (snd a) (snd b)) ds"

text \<open>The callback of the first \<^verbatim>\<open>_.filter\<close>: \<^verbatim>\<open>doc[key] && (doc[key].type === ...)\<close>.\<close>

definition nearTarget :: "string \<Rightarrow> json \<Rightarrow> error + bool" where
  "nearTarget key doc =
     bindE (get_prop doc key) (\<lambda>v.
       if truthy v then Inr (readProp v ''type'' = JStr ''Point'' \<or> readProp v ''type'' = JStr ''LineString'')
       else Inr False)"

text \<open>
  \<^verbatim>\<open>item.distance <= value["$near"]["$maxDistance"]\<close>. The right-hand side is
  converted to a number; the conversions of a string, an array or an object are
  not modelled.
\<close>

fun withinMax :: "json \<Rightarrow> jsnum \<Rightarrow> error + bool" where
  "withinMax (JNum m) d = Inr (num_le d m)"
| "withinMax (JBool b) d = Inr (num_le d (Fin (if b then 1 else 0)))"
| "withinMax JNull d = Inr (num_le d (Fin 0))"
| "withinMax JUndef d = Inr False"
| "withinMax m d = Inl OutsideModel"

text \<open>The body of the loop of \<^verbatim>\<open>processNearOperator\<close> once the query geometry is a Point.\<close>

definition nearStep :: "externals \<Rightarrow> string \<Rightarrow> json \<Rightarrow> json \<Rightarrow> json list \<Rightarrow> error + json list" where
  "nearStep E key near geo list =
     bindE (filterE (nearTarget key) list) (\<lambda>list1.
     bindE (mapE (\<lambda>doc. bindE (get_prop doc key) (\<lambda>v.
                          bindE (getDistance E geo v) (\<lambda>d. Inr (doc, d)))) list1) (\<lambda>distances.
     let distances1 = filter (\<lambda>item. num_ge (snd item) (Fin 0)) distances;
         distances2 = sortByDistance distances1
     in bindE (if truthy (readProp near ''$maxDistance'')
               then filterE (\<lambda>item. withinMax (readProp near ''$maxDistance'') (snd item)) distances2
               else Inr distances2) (\<lambda>distances3.
        Inr (map fst distances3))))"

text \<open>
  The loop over the keys of the selector. \<^verbatim>\<open>break\<close> leaves the loop with the list
  as it stands.
\<close>

fun nearLoop :: "externals \<Rightarrow> (string \<times> json) list \<Rightarrow> json list \<Rightarrow> error + json list" where
  "nearLoop E [] list = Inr list"
| "nearLoop E ((key, value) # rest) list =
     (if hasOperator ''$near'' value then
        bindE (get_prop (geometryOf ''$near'' value) ''type'') (\<lambda>t.
          if t \<noteq> JStr ''Point'' then Inr list
          else bindE (nearStep E key (readProp value ''$near'') (geometryOf ''$near'' value) list)
                 (\<lambda>list'. nearLoop E rest list'))
      else nearLoop E rest list)"

definition processNearOperator :: "externals \<Rightarrow> json \<Rightarrow> json list \<Rightarrow> error + json list" where
  "processNearOperator E selector list = nearLoop E (for_in selector) list"

section \<open>The \<^verbatim>\<open>$geoIntersects\<close> stage\<close>

definition pointInPolygon :: "externals \<Rightarrow> json \<Rightarrow> json \<Rightarrow> bool" where
  "pointInPolygon E point polygon = booleanPointInPolygon E point polygon"

definition polygonIntersection :: "externals \<Rightarrow> json \<Rightarrow> json \<Rightarrow> bool" where
  "polygonIntersection E polygon1 polygon2 = intersect E polygon1 polygon2"

text \<open>\<^verbatim>\<open>booleanCrosses(line, geo) || booleanWithin(line, geo)\<close>.\<close>

definition crossesOrWithin :: "externals \<Rightarrow> json \<Rightarrow> json \<Rightarrow> bool" where
  "crossesOrWithin E line geo = (booleanCrosses E line geo \<or> booleanWithin E line geo)"

text \<open>
  The values \<^verbatim>\<open>for (let line of v)\<close> goes through: the elements of an array, the
  characters of a string; any other value is not iterable.
\<close>

fun iterate :: "json \<Rightarrow> error + json list" where
  "iterate (JArr xs) = Inr xs"
| "iterate (JStr s) = Inr (map (\<lambda>c. JStr [c]) s)"
| "iterate v = Inl TypeError"

definition lineStringOf :: "json \<Rightarrow> json" where
  "lineStringOf line = JObj [(''type'', JStr ''LineString''), (''coordinates'', line)]"

text \<open>One part of a MultiPolygon, as a Polygon of its own.\<close>

definition polygonOf :: "json \<Rightarrow> json" where
  "polygonOf part = JObj [(''type'', JStr ''Polygon''), (''coordinates'', part)]"

text \<open>The loop over the lines of a MultiLineString.\<close>

fun multiLineLoop :: "externals \<Rightarrow> json \<Rightarrow> json list \<Rightarrow> error + bool" where
  "multiLineLoop E geo [] = Inr False"
| "multiLineLoop E geo (line # lines) =
     bindE (get_prop line ''length'') (\<lambda>n.
       if n = JNum (Fin 0) then multiLineLoop E geo lines
       else if crossesOrWithin E (lineStringOf line) geo then Inr True
       else multiLineLoop E geo lines)"

text \<open>
  The callback of the \<^verbatim>\<open>_.filter\<close> of \<^verbatim>\<open>processGeoIntersectsOperator\<close>. A geometry
  of any other type falls off the end of the callback, which then returns
  \<^verbatim>\<open>undefined\<close>: the document is dropped.
\<close>

definition geoIntersectsDoc :: "externals \<Rightarrow> string \<Rightarrow> json \<Rightarrow> json \<Rightarrow> error + bool" where
  "geoIntersectsDoc E key geo doc =
     bindE (get_prop doc key) (\<lambda>v.
       if \<not> truthy v then Inr False
       else if readProp v ''type'' = JStr ''Point'' then Inr (pointInPolygon E v geo)
       else if readProp v ''type'' = JStr ''Polygon'' \<or> readProp v ''type'' = JStr ''MultiPolygon''
         then Inr (polygonIntersection E v geo)
       else if readProp v ''type'' = JStr ''LineString'' then
         bindE (get_prop (readProp v ''coordinates'') ''length'') (\<lambda>n.
           if n = JNum (Fin 0) then Inr False else Inr (crossesOrWithin E v geo))
       else if readProp v ''type'' = JStr ''MultiLineString'' then
         bindE (iterate (readProp v ''coordinates'')) (multiLineLoop E geo)
       else Inr False)"

fun geoLoop :: "externals \<Rightarrow> (string \<times> json) list \<Rightarrow> json list \<Rightarrow> error + json list" where
  "geoLoop E [] list = Inr list"
| "geoLoop E ((key, value) # rest) list =
     (if hasOperator ''$geoIntersects'' value then
        bindE (get_prop (geometryOf ''$geoIntersects'' value) ''type'') (\<lambda>t.
          if t \<noteq> JStr ''Polygon'' then Inr list
          else bindE (filterE (geoIntersectsDoc E key (geometryOf ''$geoIntersects'' value)) list)
                 (\<lambda>list'. geoLoop E rest list'))
      else geoLoop E rest list)"

definition processGeoIntersectsOperator :: "externals \<Rightarrow> json \<Rightarrow> json list \<Rightarrow> error + json list" where
  "processGeoIntersectsOperator E selector list = geoLoop E (for_in selector) list"

section \<open>Field projection\<close>

text \<open>\<^verbatim>\<open>field.split(".")\<close>: never empty; the empty string gives one empty element.\<close>

fun split_dot :: "string \<Rightarrow> string list" where
  "split_dot [] = [[]]"
| "split_dot (c # cs) =
     (if c = CHR ''.'' then [] # split_dot cs
      else case split_dot cs of [] \<Rightarrow> [[c]] | w # ws \<Rightarrow> (c # w) # ws)"

text \<open>
  \<^verbatim>\<open>o[k] = v\<close> on an object: an existing key keeps its place, a new key comes last.
\<close>

fun obj_set :: "(string \<times> 'a) list \<Rightarrow> string \<Rightarrow> 'a \<Rightarrow> (string \<times> 'a) list" where
  "obj_set [] k v = [(k, v)]"
| "obj_set ((k', v') # kvs) k v = (if k' = k then (k, v) # kvs else (k', v') # obj_set kvs k v)"

text \<open>
  \<^verbatim>\<open>o[k] = v\<close> in general. The file is a module, hence strict code: writing a
  property of a primitive throws. A property written on an array is outside
  the value model.
\<close>

fun set_prop :: "json \<Rightarrow> string \<Rightarrow> json \<Rightarrow> error + json" where
  "set_prop (JObj kvs) k v = Inr (JObj (obj_set kvs k v))"
| "set_prop (JArr xs) k v = Inl OutsideModel"
| "set_prop o' k v = Inl TypeError"

text \<open>
  The names in a field path are chosen by the caller, so a path can name a
  member that a value inherits from its prototype instead of a property of its
  own: \<^verbatim>\<open>item["constructor"]\<close> is a built-in function, which is not a value of
  the model. These are the members of \<^verbatim>\<open>Object.prototype\<close>, which every value
  inherits.
\<close>

definition inheritedNames :: "string list" where
  "inheritedNames =
     [''constructor'', ''hasOwnProperty'', ''isPrototypeOf'', ''propertyIsEnumerable'',
      ''toLocaleString'', ''toString'', ''valueOf'', ''__proto__'', ''__defineGetter__'',
      ''__defineSetter__'', ''__lookupGetter__'', ''__lookupSetter__'']"

text \<open>
  \<^verbatim>\<open>v[k]\<close> for a name \<^verbatim>\<open>k\<close> of the caller's choice. An object gives its own
  property of that name; without one, an inherited member is outside the model
  and any other name reads as \<^verbatim>\<open>undefined\<close>. A number adds the three methods
  of \<^verbatim>\<open>Number.prototype\<close> to the inherited members. Arrays and strings have
  \<^verbatim>\<open>length\<close> and their indices; their prototypes hold many more members, which
  vary with the version of the language, so every other name is outside the
  model.
\<close>

fun readMember :: "json \<Rightarrow> string \<Rightarrow> error + json" where
  "readMember JUndef k = Inl TypeError"
| "readMember JNull k = Inl TypeError"
| "readMember (JObj kvs) k =
     (case map_of kvs k of
        Some v \<Rightarrow> Inr v
      | None \<Rightarrow> if k \<in> set inheritedNames then Inl OutsideModel else Inr JUndef)"
| "readMember (JArr xs) k =
     (if k = ''length'' \<or> parse_index k \<noteq> None then Inr (readProp (JArr xs) k) else Inl OutsideModel)"
| "readMember (JStr s) k =
     (if k = ''length'' \<or> parse_index k \<noteq> None then Inr (readProp (JStr s) k) else Inl OutsideModel)"
| "readMember (JNum n) k =
     (if k \<in> set inheritedNames \<or> k \<in> set [''toExponential'', ''toFixed'', ''toPrecision'']
      then Inl OutsideModel else Inr JUndef)"
| "readMember (JBool b) k = (if k \<in> set inheritedNames then Inl OutsideModel else Inr JUndef)"

text \<open>
  \<^verbatim>\<open>o[k] = v\<close> for a name of the caller's choice: writing \<^verbatim>\<open>__proto__\<close> replaces
  the prototype of the object instead of storing a property, which is outside
  the model.
\<close>

definition writeMember :: "json \<Rightarrow> string \<Rightarrow> json \<Rightarrow> error + json" where
  "writeMember o' k v = (if k = ''__proto__'' then Inl OutsideModel else set_prop o' k v)"

text \<open>
  The first inner loop of the inclusion branch,
  \<^verbatim>\<open>for (pathElem of path) { if (obj) { obj = obj[pathElem] } }\<close>.
\<close>

fun existsWalk :: "json \<Rightarrow> string list \<Rightarrow> error + json" where
  "existsWalk obj [] = Inr obj"
| "existsWalk obj (pathElem # path) =
     (if truthy obj then bindE (readMember obj pathElem) (\<lambda>inner. existsWalk inner path)
      else existsWalk obj path)"

text \<open>
  The second inner loop and the copy after it, as one recursion over the path:
  for every element but the last, \<^verbatim>\<open>to[pathElem] = to[pathElem] || {}\<close>, then both
  \<^verbatim>\<open>to\<close> and \<^verbatim>\<open>from\<close> move inside; at the last element
  \<^verbatim>\<open>to[last] = from[last]\<close>. The result is the updated value of the outermost
  \<^verbatim>\<open>to\<close>. The code stores a reference to the source's value, the model the value
  itself: the two agree as long as no later write goes through such a
  reference, that is, as long as no listed path extends another listed path.
\<close>

fun copyPath :: "json \<Rightarrow> json \<Rightarrow> string list \<Rightarrow> error + json" where
  "copyPath to from [] = Inr to"
| "copyPath to from [k] = bindE (readMember from k) (\<lambda>v. writeMember to k v)"
| "copyPath to from (k # ks) =
     bindE (readMember to k) (\<lambda>there.
     bindE (writeMember to k (if truthy there then there else JObj [])) (\<lambda>to1.
     bindE (readMember from k) (\<lambda>from1.
     bindE (copyPath (if truthy there then there else JObj []) from1 ks) (\<lambda>inner.
       writeMember to1 k inner))))"

text \<open>The loop over the listed fields, \<^verbatim>\<open>newItem\<close> being the accumulator.\<close>

fun includeLoop :: "json \<Rightarrow> string list \<Rightarrow> json \<Rightarrow> error + json" where
  "includeLoop item [] newItem = Inr newItem"
| "includeLoop item (field # rest) newItem =
     bindE (existsWalk item (split_dot field)) (\<lambda>obj.
       if nullish obj then includeLoop item rest newItem
       else bindE (copyPath newItem item (split_dot field)) (includeLoop item rest))"

text \<open>
  \<^verbatim>\<open>JSON.parse(JSON.stringify(v))\<close> for a value inside a document: a property
  whose value is \<^verbatim>\<open>undefined\<close> is left out, an \<^verbatim>\<open>undefined\<close> array element and
  a number that is not finite become \<^verbatim>\<open>null\<close>.
\<close>

fun json_clone :: "json \<Rightarrow> json" where
  "json_clone JUndef = JNull"
| "json_clone JNull = JNull"
| "json_clone (JBool b) = JBool b"
| "json_clone (JNum n) = (case n of Fin r \<Rightarrow> JNum (Fin r) | _ \<Rightarrow> JNull)"
| "json_clone (JStr s) = JStr s"
| "json_clone (JArr xs) = JArr (map json_clone xs)"
| "json_clone (JObj kvs) =
     JObj (map (\<lambda>kv. (fst kv, json_clone (snd kv))) (filter (\<lambda>kv. snd kv \<noteq> JUndef) kvs))"

text \<open>At the top, \<^verbatim>\<open>JSON.stringify(undefined)\<close> is \<^verbatim>\<open>undefined\<close>, which does not parse.\<close>

definition deepClone :: "json \<Rightarrow> error + json" where
  "deepClone item = (if item = JUndef then Inl SyntaxError else Inr (json_clone item))"

text \<open>
  \<^verbatim>\<open>delete o[k]\<close> for \<^verbatim>\<open>o\<close> neither \<^verbatim>\<open>null\<close> nor \<^verbatim>\<open>undefined\<close>, in strict code:
  \<^verbatim>\<open>length\<close> and the characters of a string cannot be deleted; a deleted array
  element leaves a hole, which reads as \<^verbatim>\<open>undefined\<close>.
\<close>

fun delete_prop :: "json \<Rightarrow> string \<Rightarrow> error + json" where
  "delete_prop (JObj kvs) k = Inr (JObj (filter (\<lambda>kv. fst kv \<noteq> k) kvs))"
| "delete_prop (JArr xs) k =
     (if k = ''length'' then Inl TypeError
      else case parse_index k of
             None \<Rightarrow> Inr (JArr xs)
           | Some i \<Rightarrow> Inr (JArr (if i < length xs then xs[i := JUndef] else xs)))"
| "delete_prop (JStr s) k =
     (if k = ''length'' then Inl TypeError
      else case parse_index k of
             None \<Rightarrow> Inr (JStr s)
           | Some i \<Rightarrow> if i < length s then Inl TypeError else Inr (JStr s))"
| "delete_prop v k = Inr v"

text \<open>The container \<^verbatim>\<open>o\<close> after the value under its key \<^verbatim>\<open>k\<close> was changed in place.\<close>

fun put_back :: "json \<Rightarrow> string \<Rightarrow> json \<Rightarrow> json" where
  "put_back (JObj kvs) k v = (if k \<in> fst ` set kvs then JObj (obj_set kvs k v) else JObj kvs)"
| "put_back (JArr xs) k v =
     (case parse_index k of
        None \<Rightarrow> JArr xs
      | Some i \<Rightarrow> JArr (if i < length xs then xs[i := v] else xs))"
| "put_back o' k v = o'"

text \<open>
  One field of the exclusion branch, on the cloned item: walk all elements of the
  path but the last (\<^verbatim>\<open>if (obj) { obj = obj[pathElem] }\<close>), give up when the walk
  ends on \<^verbatim>\<open>null\<close> or \<^verbatim>\<open>undefined\<close>, else \<^verbatim>\<open>delete obj[last]\<close>. The result is
  the item after the deletion.
\<close>

fun deletePath :: "json \<Rightarrow> string list \<Rightarrow> error + json" where
  "deletePath obj [] = Inr obj"
| "deletePath obj [k] = (if nullish obj then Inr obj else delete_prop obj k)"
| "deletePath obj (k # ks) =
     (if truthy obj
      then bindE (readMember obj k) (\<lambda>child.
           bindE (deletePath child ks) (\<lambda>inner. Inr (put_back obj k inner)))
      else deletePath obj ks)"

fun excludeLoop :: "string list \<Rightarrow> json \<Rightarrow> error + json" where
  "excludeLoop [] item = Inr item"
| "excludeLoop (field # rest) item =
     bindE (deletePath item (split_dot field)) (excludeLoop rest)"

text \<open>\<^verbatim>\<open>_.keys\<close> and \<^verbatim>\<open>_.values\<close>, in enumeration order.\<close>

definition js_keys :: "json \<Rightarrow> string list" where
  "js_keys v = map fst (for_in v)"

definition js_values :: "json \<Rightarrow> json list" where
  "js_values v = map snd (for_in v)"

text \<open>\<^verbatim>\<open>_.first(_.values(fields)) === 1\<close>.\<close>

definition inclusionMode :: "json \<Rightarrow> bool" where
  "inclusionMode flds = (case js_values flds of [] \<Rightarrow> False | v # vs \<Rightarrow> v = JNum (Fin 1))"

text \<open>No listed path runs through another listed path.\<close>

definition noNesting :: "string list list \<Rightarrow> bool" where
  "noNesting paths = list_all (\<lambda>p. list_all (\<lambda>q. prefix p q \<longrightarrow> p = q) paths) paths"

text \<open>
  The callback of \<^verbatim>\<open>_.map\<close>: one document. In the inclusion branch a listed
  path that extends another listed path writes through a reference into the
  document itself; the value model does not represent that, so such a list of
  fields is outside the model.
\<close>

definition projectItem :: "json \<Rightarrow> json \<Rightarrow> error + json" where
  "projectItem flds item =
     (if inclusionMode flds
      then (if noNesting (map split_dot (js_keys flds @ [''_id'']))
            then includeLoop item (js_keys flds @ [''_id'']) (JObj [])
            else Inl OutsideModel)
      else bindE (deepClone item) (excludeLoop (js_keys flds)))"

definition filterFields :: "json list \<Rightarrow> json \<Rightarrow> error + json list" where
  "filterFields items flds =
     (if length (js_keys flds) = 0 then Inr items else mapE (projectItem flds) items)"

section \<open>The query processor\<close>

text \<open>\<^verbatim>\<open>toInteger\<close> of lodash on a finite number: the fraction is cut off.\<close>

definition trunc :: "real \<Rightarrow> int" where
  "trunc r = (if r < 0 then - \<lfloor>- r\<rfloor> else \<lfloor>r\<rfloor>)"

text \<open>
  \<^verbatim>\<open>_.slice(array, start)\<close>: a negative start counts from the end. An infinite
  start is clamped by lodash to the largest finite number.
\<close>

fun sliceFrom :: "'a list \<Rightarrow> json \<Rightarrow> error + 'a list" where
  "sliceFrom xs (JNum (Fin r)) =
     Inr (if trunc r < 0 then drop (length xs - nat (- trunc r)) xs else drop (nat (trunc r)) xs)"
| "sliceFrom xs (JNum PInf) = Inr []"
| "sliceFrom xs (JNum n) = Inr xs"
| "sliceFrom xs (JBool b) = Inr (if b then drop 1 xs else xs)"
| "sliceFrom xs JNull = Inr xs"
| "sliceFrom xs JUndef = Inr xs"
| "sliceFrom xs v = Inl OutsideModel"

text \<open>\<^verbatim>\<open>_.take(array, n)\<close>: nothing for a negative \<^verbatim>\<open>n\<close>.\<close>

fun takeN :: "'a list \<Rightarrow> json \<Rightarrow> error + 'a list" where
  "takeN xs (JNum (Fin r)) = Inr (take (nat (trunc r)) xs)"
| "takeN xs (JNum PInf) = Inr xs"
| "takeN xs (JNum n) = Inr []"
| "takeN xs (JBool b) = Inr (if b then take 1 xs else [])"
| "takeN xs JNull = Inr []"
| "takeN xs JUndef = Inr (take 1 xs)"
| "takeN xs v = Inl OutsideModel"

text \<open>\<^verbatim>\<open>options && options.name\<close>.\<close>

definition option_of :: "json \<Rightarrow> string \<Rightarrow> json" where
  "option_of options name = (if truthy options then readProp options name else options)"

definition processFind :: "externals \<Rightarrow> json list \<Rightarrow> json \<Rightarrow> json \<Rightarrow> error + json list" where
  "processFind E items selector options =
     bindE (Inr (filter (compileDocumentSelector E selector) items)) (\<lambda>filtered.
     bindE (processNearOperator E selector filtered) (\<lambda>filtered.
     bindE (processGeoIntersectsOperator E selector filtered) (\<lambda>filtered.
     bindE (if truthy (option_of options ''sort'')
            then Inr (arraySort (compileSort E (readProp options ''sort'')) filtered)
            else Inr filtered) (\<lambda>filtered.
     bindE (if truthy (option_of options ''skip'')
            then sliceFrom filtered (readProp options ''skip'')
            else Inr filtered) (\<lambda>filtered.
     bindE (if truthy (option_of options ''limit'')
            then takeN filtered (readProp options ''limit'')
            else Inr filtered) (\<lambda>filtered.
     if truthy (option_of options ''fields'')
     then filterFields filtered (readProp options ''fields'')
     else Inr filtered))))))"

text \<open>
  The \<^verbatim>\<open>$near\<close> stage in the words of the specification: keep the documents
  whose target field is a Point or a LineString, compute the distance of each,
  drop the distances that are not at least 0, sort ascending by distance, apply
  the ceiling.
\<close>

definition targetIsPointOrLine :: "string \<Rightarrow> json \<Rightarrow> bool" where
  "targetIsPointOrLine key doc =
     (truthy (readProp doc key) \<and>
      (readProp (readProp doc key) ''type'' = JStr ''Point'' \<or>
       readProp (readProp doc key) ''type'' = JStr ''LineString''))"

definition targetDistance :: "externals \<Rightarrow> string \<Rightarrow> json \<Rightarrow> json \<Rightarrow> jsnum" where
  "targetDistance E key geo doc =
     (if readProp (readProp doc key) ''type'' = JStr ''Point'' then distance E geo (readProp doc key)
      else nearestPointOnLine E (readProp doc key) geo)"

definition underCeiling :: "json \<Rightarrow> jsnum \<Rightarrow> bool" where
  "underCeiling maxDistance d = (case maxDistance of JNum m \<Rightarrow> num_le d m | _ \<Rightarrow> True)"

definition nearStage :: "externals \<Rightarrow> string \<Rightarrow> json \<Rightarrow> json \<Rightarrow> json list \<Rightarrow> json list" where
  "nearStage E key geo maxDistance docs =
     filter (\<lambda>doc. underCeiling maxDistance (targetDistance E key geo doc))
       (stableSort (\<lambda>a b. compareAscending (targetDistance E key geo a) (targetDistance E key geo b))
          (filter (\<lambda>doc. num_ge (targetDistance E key geo doc) (Fin 0))
             (filter (targetIsPointOrLine key) docs)))"

text \<open>
  The seven stages as the specification lists them, and the pipeline that runs
  them in that order; \<open>processFind\<close> above follows the statements of the source.
\<close>

definition stage1_selector :: "externals \<Rightarrow> json \<Rightarrow> json list \<Rightarrow> error + json list" where
  "stage1_selector E selector docs = Inr (filter (compileDocumentSelector E selector) docs)"

definition stage2_near :: "externals \<Rightarrow> json \<Rightarrow> json list \<Rightarrow> error + json list" where
  "stage2_near E selector docs = processNearOperator E selector docs"

definition stage3_geoIntersects :: "externals \<Rightarrow> json \<Rightarrow> json list \<Rightarrow> error + json list" where
  "stage3_geoIntersects E selector docs = processGeoIntersectsOperator E selector docs"

definition stage4_sort :: "externals \<Rightarrow> json \<Rightarrow> json list \<Rightarrow> error + json list" where
  "stage4_sort E options docs =
     (if truthy (option_of options ''sort'')
      then Inr (arraySort (compileSort E (readProp options ''sort'')) docs) else Inr docs)"

definition stage5_skip :: "json \<Rightarrow> json list \<Rightarrow> error + json list" where
  "stage5_skip options docs =
     (if truthy (option_of options ''skip'') then sliceFrom docs (readProp options ''skip'') else Inr docs)"

definition stage6_limit :: "json \<Rightarrow> json list \<Rightarrow> error + json list" where
  "stage6_limit options docs =
     (if truthy (option_of options ''limit'') then takeN docs (readProp options ''limit'') else Inr docs)"

definition stage7_projection :: "json \<Rightarrow> json list \<Rightarrow> error + json list" where
  "stage7_projection options docs =
     (if truthy (option_of options ''fields'') then filterFields docs (readProp options ''fields'')
      else Inr docs)"

text \<open>Stages run one after the other; a stage that throws ends the run.\<close>

fun runStages :: "('a \<Rightarrow> error + 'a) list \<Rightarrow> 'a \<Rightarrow> error + 'a" where
  "runStages [] x = Inr x"
| "runStages (stage # stages) x = bindE (stage x) (runStages stages)"

definition pipeline :: "externals \<Rightarrow> json \<Rightarrow> json \<Rightarrow> json list \<Rightarrow> error + json list" where
  "pipeline E selector options =
     runStages [stage1_selector E selector, stage2_near E selector, stage3_geoIntersects E selector,
                stage4_sort E options, stage5_skip options, stage6_limit options,
                stage7_projection options]"

section \<open>Identifiers and upsert parameters\<close>

text \<open>
  \<^verbatim>\<open>Math.random()\<close> is a source of numbers: \<open>rand i\<close> is the result of the
  \<open>i\<close>-th call, and the number of calls made so far is threaded through the
  functions that draw.
\<close>

type_synonym random = "nat \<Rightarrow> real"

text \<open>\<^verbatim>\<open>x | 0\<close>: the fraction is cut off and the integer wraps to 32 bits.\<close>

definition toInt32 :: "real \<Rightarrow> 32 word" where
  "toInt32 x = word_of_int (trunc x)"

definition hexChar :: "nat \<Rightarrow> char" where
  "hexChar d = ''0123456789abcdef'' ! d"

fun hexDigits :: "nat \<Rightarrow> string" where
  "hexDigits n = (if n < 16 then [hexChar n] else hexDigits (n div 16) @ [hexChar (n mod 16)])"

declare hexDigits.simps [simp del]

text \<open>\<^verbatim>\<open>v.toString(16)\<close> for an integer.\<close>

definition toString16 :: "int \<Rightarrow> string" where
  "toString16 v = (if v < 0 then CHR ''-'' # hexDigits (nat (- v)) else hexDigits (nat v))"

text \<open>The callback of \<^verbatim>\<open>replace\<close>, given the matched character and the number drawn.\<close>

definition uidDigit :: "char \<Rightarrow> real \<Rightarrow> string" where
  "uidDigit c u =
     (let r = toInt32 (u * 16);
          v = (if c = CHR ''x'' then r else (r AND 3) OR 8)
      in toString16 (sint v))"

text \<open>
  \<^verbatim>\<open>template.replace(/[xy]/g, callback)\<close>: from left to right, every \<^verbatim>\<open>x\<close> and
  \<^verbatim>\<open>y\<close> is replaced by what the callback returns for it. The result comes with
  the number of draws made.
\<close>

fun replaceXY :: "random \<Rightarrow> nat \<Rightarrow> string \<Rightarrow> string \<times> nat" where
  "replaceXY rand i [] = ([], i)"
| "replaceXY rand i (c # cs) =
     (if c = CHR ''x'' \<or> c = CHR ''y''
      then (case replaceXY rand (Suc i) cs of (rest, j) \<Rightarrow> (uidDigit c (rand i) @ rest, j))
      else (case replaceXY rand i cs of (rest, j) \<Rightarrow> (c # rest, j)))"

definition createUid :: "random \<Rightarrow> nat \<Rightarrow> string \<times> nat" where
  "createUid rand i = replaceXY rand i ''xxxxxxxxxxxx4xxxyxxxxxxxxxxxxxxx''"

text \<open>
  \<^verbatim>\<open>regularizeUpsert\<close> writes the missing \<^verbatim>\<open>_id\<close> into the document it was
  given, and a base can be the very object of a document. Its arguments are
  therefore modelled with the identity of objects: a value is a primitive or a
  reference, and a store gives the object behind each reference. An object is
  the list of its own properties, an array the list of its elements.
\<close>

type_synonym addr = nat

datatype val = VUndef | VNull | VBool bool | VNum jsnum | VStr string | VRef addr

datatype obj = Obj "(string \<times> val) list" | Arr "val list"

type_synonym store = "addr \<Rightarrow> obj"

fun truthyV :: "val \<Rightarrow> bool" where
  "truthyV VUndef = False"
| "truthyV VNull = False"
| "truthyV (VBool b) = b"
| "truthyV (VNum n) = (n \<noteq> NaN \<and> n \<noteq> Fin 0)"
| "truthyV (VStr s) = (s \<noteq> [])"
| "truthyV (VRef a) = True"

fun nullishV :: "val \<Rightarrow> bool" where
  "nullishV VUndef = True"
| "nullishV VNull = True"
| "nullishV v = False"

definition own :: "(string \<times> val) list \<Rightarrow> string \<Rightarrow> val" where
  "own kvs k = (case map_of kvs k of None \<Rightarrow> VUndef | Some v \<Rightarrow> v)"

text \<open>
  An argument of \<^verbatim>\<open>regularizeUpsert\<close> is a callback or a value; \<^verbatim>\<open>_.isFunction\<close>
  tells them apart.
\<close>

datatype 'f arg = Callback 'f | Value val

fun isFunction :: "'f arg \<Rightarrow> bool" where
  "isFunction (Callback f) = True"
| "isFunction (Value v) = False"

text \<open>The value \<^verbatim>\<open>bases\<close> holds once the callbacks are shifted out of it.\<close>

fun value_of :: "'f arg \<Rightarrow> val" where
  "value_of (Value v) = v"
| "value_of (Callback f) = VUndef"

text \<open>\<^verbatim>\<open>_.isArray(v)\<close>, with the elements of the array.\<close>

fun arrayElements :: "store \<Rightarrow> val \<Rightarrow> val list option" where
  "arrayElements h (VRef a) = (case h a of Arr xs \<Rightarrow> Some xs | Obj kvs \<Rightarrow> None)"
| "arrayElements h v = None"

text \<open>
  What \<^verbatim>\<open>bases\<close> holds after the first statements: an array the function has
  just made (\<^verbatim>\<open>[bases]\<close> or \<^verbatim>\<open>[]\<close>), or the value it was given.
\<close>

datatype bases = Fresh "val list" | Given val

text \<open>
  \<^verbatim>\<open>v.length\<close> and \<^verbatim>\<open>v[i]\<close> for a number \<^verbatim>\<open>i\<close> and a truthy \<^verbatim>\<open>v\<close>: of an array,
  of a string, of an object that has such properties of its own; \<^verbatim>\<open>undefined\<close>
  on a number or a boolean.
\<close>

fun lengthOf :: "store \<Rightarrow> val \<Rightarrow> val" where
  "lengthOf h (VRef a) =
     (case h a of Arr xs \<Rightarrow> VNum (Fin (real (length xs))) | Obj kvs \<Rightarrow> own kvs ''length'')"
| "lengthOf h (VStr s) = VNum (Fin (real (length s)))"
| "lengthOf h v = VUndef"

fun elementAt :: "store \<Rightarrow> val \<Rightarrow> nat \<Rightarrow> val" where
  "elementAt h (VRef a) i =
     (case h a of
        Arr xs \<Rightarrow> if i < length xs then xs ! i else VUndef
      | Obj kvs \<Rightarrow> own kvs (show_nat i))"
| "elementAt h (VStr s) i = (if i < length s then VStr [s ! i] else VUndef)"
| "elementAt h v i = VUndef"

text \<open>
  \<^verbatim>\<open>i < n\<close> for a number \<^verbatim>\<open>i\<close>: \<^verbatim>\<open>n\<close> is converted to a number; the conversions
  of a string and of an object are not modelled.
\<close>

fun indexBelow :: "nat \<Rightarrow> val \<Rightarrow> error + bool" where
  "indexBelow i (VNum n) = Inr (num_lt (Fin (real i)) n)"
| "indexBelow i VUndef = Inr False"
| "indexBelow i VNull = Inr False"
| "indexBelow i (VBool b) = Inr (b \<and> i = 0)"
| "indexBelow i v = Inl OutsideModel"

text \<open>\<^verbatim>\<open>i < bases.length ? bases[i] : undefined\<close>.\<close>

fun baseAt :: "store \<Rightarrow> bases \<Rightarrow> nat \<Rightarrow> error + val" where
  "baseAt h (Fresh bs) i = Inr (if i < length bs then bs ! i else VUndef)"
| "baseAt h (Given b) i =
     bindE (indexBelow i (lengthOf h b)) (\<lambda>below. Inr (if below then elementAt h b i else VUndef))"

text \<open>
  \<^verbatim>\<open>_.map(docs, (doc, i) => ({ doc, base: i < bases.length ? bases[i] : undefined }))\<close>,
  from index \<open>i\<close> on.
\<close>

fun pairItems :: "store \<Rightarrow> bases \<Rightarrow> nat \<Rightarrow> val list \<Rightarrow> error + (val \<times> val) list" where
  "pairItems h bs i [] = Inr []"
| "pairItems h bs i (doc # docs) =
     bindE (baseAt h bs i) (\<lambda>base.
     bindE (pairItems h bs (Suc i) docs) (\<lambda>items. Inr ((doc, base) # items)))"

text \<open>
  \<^verbatim>\<open>v._id\<close> for a value that is neither \<^verbatim>\<open>null\<close> nor \<^verbatim>\<open>undefined\<close> (no built-in
  prototype has a member of that name), and \<^verbatim>\<open>v._id\<close> in general.
\<close>

fun idOf :: "store \<Rightarrow> val \<Rightarrow> val" where
  "idOf h (VRef a) = (case h a of Obj kvs \<Rightarrow> own kvs ''_id'' | Arr xs \<Rightarrow> VUndef)"
| "idOf h v = VUndef"

definition readId :: "store \<Rightarrow> val \<Rightarrow> error + val" where
  "readId h v = (if nullishV v then Inl TypeError else Inr (idOf h v))"

text \<open>
  \<^verbatim>\<open>v._id = x\<close>: the object behind the reference is changed in the store. The
  file is a module, hence strict code: writing a property of a primitive
  throws. A named property on an array is outside the model.
\<close>

fun writeId :: "store \<Rightarrow> val \<Rightarrow> val \<Rightarrow> error + store" where
  "writeId h (VRef a) x =
     (case h a of
        Obj kvs \<Rightarrow> Inr (h(a := Obj (obj_set kvs ''_id'' x)))
      | Arr xs \<Rightarrow> Inl OutsideModel)"
| "writeId h v x = Inl TypeError"

text \<open>
  \<^verbatim>\<open>a !== b\<close>: primitives differ by value, references by the object they point
  to; \<^verbatim>\<open>NaN\<close> differs from itself.
\<close>

definition strictNeq :: "val \<Rightarrow> val \<Rightarrow> bool" where
  "strictNeq a b = (a \<noteq> b \<or> a = VNum NaN)"

text \<open>
  The loop that sets the missing \<^verbatim>\<open>_id\<close>s and checks the bases, item by item,
  on the store as the items before have left it. It returns the number of
  random draws made and the store.
\<close>

fun setIds :: "random \<Rightarrow> nat \<Rightarrow> store \<Rightarrow> (val \<times> val) list \<Rightarrow> error + nat \<times> store" where
  "setIds rand i h [] = Inr (i, h)"
| "setIds rand i h ((doc, base) # rest) =
     bindE (readId h doc) (\<lambda>id.
     bindE (if \<not> truthyV id
            then bindE (writeId h doc (VStr (fst (createUid rand i))))
                   (\<lambda>h'. Inr (snd (createUid rand i), h'))
            else Inr (i, h)) (\<lambda>(i', h').
       if truthyV base \<and> \<not> truthyV (idOf h' base) then Inl BaseNeedsId
       else if truthyV base \<and> strictNeq (idOf h' base) (idOf h' doc) then Inl BaseNeedsSameId
       else setIds rand i' h' rest))"

text \<open>
  \<^verbatim>\<open>regularizeUpsert\<close>: the returned triple (the items hold references to the
  documents and bases), with the number of random draws made and the store
  as the call leaves it.
\<close>

definition regularizeUpsert ::
  "random \<Rightarrow> nat \<Rightarrow> store \<Rightarrow> val \<Rightarrow> 'f arg \<Rightarrow> 'f arg \<Rightarrow> 'f arg \<Rightarrow>
     error + ((val \<times> val) list \<times> 'f arg \<times> 'f arg) \<times> nat \<times> store" where
  "regularizeUpsert rand i h docs bases success error =
     (let (bases1, success1, error1) =
            (if isFunction bases then (Value VUndef, bases, success) else (bases, success, error));
          (docs2, bases2) =
            (case arrayElements h docs of
               Some ds \<Rightarrow> (ds, if truthyV (value_of bases1) then Given (value_of bases1) else Fresh [])
             | None \<Rightarrow> ([docs], Fresh [value_of bases1]))
      in bindE (pairItems h bases2 0 docs2) (\<lambda>items.
         bindE (setIds rand i h items) (\<lambda>(j, h').
           Inr ((items, success1, error1), j, h'))))"









text \<open>The stores of the worked examples: one object or array after the other.\<close>

definition storeOf :: "obj list \<Rightarrow> store" where
  "storeOf objs a = (if a < length objs then objs ! a else Obj [])"

section \<open>Stand-ins for the collaborators, for the worked examples\<close>

text \<open>
  The examples below need concrete collaborators. The geometry stand-ins live
  on a straight line measured in metres: the first coordinate of a position is
  its place on the line, a linear ring covers the stretch between its first two
  positions. A position without a number for its first coordinate has no place:
  the arithmetic of the language gives \<^verbatim>\<open>NaN\<close> for it.
\<close>

definition place :: "json \<Rightarrow> jsnum" where
  "place position = (case readProp position ''0'' of JNum n \<Rightarrow> n | _ \<Rightarrow> NaN)"

definition gap :: "jsnum \<Rightarrow> jsnum \<Rightarrow> jsnum" where
  "gap a b = (case (a, b) of (Fin x, Fin y) \<Rightarrow> Fin \<bar>y - x\<bar> | _ \<Rightarrow> NaN)"

text \<open>
  Modelled from the spec: the distance primitive of the Geo Predicate Adapter
  (turf's \<^verbatim>\<open>distance\<close>, not part of the sources), as the distance in metres
  between two Points on the line.
\<close>

definition lineDistance :: "json \<Rightarrow> json \<Rightarrow> jsnum" where
  "lineDistance from to = gap (place (readProp from ''coordinates'')) (place (readProp to ''coordinates''))"

fun nearestVertex :: "jsnum \<Rightarrow> json list \<Rightarrow> jsnum" where
  "nearestVertex p [] = PInf"
| "nearestVertex p (v # vs) =
     (if num_le (gap p (place v)) (nearestVertex p vs) then gap p (place v) else nearestVertex p vs)"

text \<open>
  Modelled from the spec: the distance from a Point to a LineString (turf's
  \<^verbatim>\<open>nearestPointOnLine(...).properties.dist\<close>, not part of the sources), as the
  distance to the nearest vertex of the line; infinite for a line without
  vertices.
\<close>

definition lineNearest :: "json \<Rightarrow> json \<Rightarrow> jsnum" where
  "lineNearest line point =
     (case readProp line ''coordinates'' of
        JArr vs \<Rightarrow> nearestVertex (place (readProp point ''coordinates'')) vs
      | _ \<Rightarrow> NaN)"

text \<open>Whether a place lies on the stretch covered by the first ring of a Polygon.\<close>

definition onStretch :: "json \<Rightarrow> jsnum \<Rightarrow> bool" where
  "onStretch polygon x =
     (num_le (place (readProp (readProp (readProp polygon ''coordinates'') ''0'') ''0'')) x \<and>
      num_le x (place (readProp (readProp (readProp polygon ''coordinates'') ''0'') ''1'')))"

text \<open>
  Modelled from the spec: \<^verbatim>\<open>pointInPolygon\<close> of the Geo Predicate Adapter (turf's
  \<^verbatim>\<open>booleanPointInPolygon\<close>, not part of the sources).
\<close>

definition linePointInPolygon :: "json \<Rightarrow> json \<Rightarrow> bool" where
  "linePointInPolygon point polygon = onStretch polygon (place (readProp point ''coordinates''))"

text \<open>The outer rings of a Polygon (one) or of a MultiPolygon (one for each part).\<close>

definition outerRings :: "json \<Rightarrow> json list" where
  "outerRings g =
     (if readProp g ''type'' = JStr ''Polygon'' then [readProp (readProp g ''coordinates'') ''0'']
      else if readProp g ''type'' = JStr ''MultiPolygon''
        then (case readProp g ''coordinates'' of
                JArr parts \<Rightarrow> map (\<lambda>part. readProp part ''0'') parts
              | _ \<Rightarrow> [])
      else [])"

text \<open>Two stretches meet when one of them starts on the other.\<close>

definition stretchesMeet :: "json \<Rightarrow> json \<Rightarrow> bool" where
  "stretchesMeet r s =
     ((num_le (place (readProp r ''0'')) (place (readProp s ''0'')) \<and>
       num_le (place (readProp s ''0'')) (place (readProp r ''1''))) \<or>
      (num_le (place (readProp s ''0'')) (place (readProp r ''0'')) \<and>
       num_le (place (readProp r ''0'')) (place (readProp s ''1''))))"

text \<open>
  Modelled from the spec: \<^verbatim>\<open>polygonsIntersect\<close> of the Geo Predicate Adapter (turf's
  \<^verbatim>\<open>intersect(a, b) != null\<close>, not part of the sources): some stretch of the one
  geometry meets some stretch of the other, a multi-geometry being taken part
  by part.
\<close>

definition lineIntersect :: "json \<Rightarrow> json \<Rightarrow> bool" where
  "lineIntersect a b = list_ex (\<lambda>r. list_ex (stretchesMeet r) (outerRings b)) (outerRings a)"

definition vertices :: "json \<Rightarrow> json list" where
  "vertices line = (case readProp line ''coordinates'' of JArr vs \<Rightarrow> vs | _ \<Rightarrow> [])"

text \<open>
  Modelled from the spec: \<^verbatim>\<open>lineCrossesOrWithin\<close> of the Geo Predicate Adapter
  (turf's \<^verbatim>\<open>booleanWithin\<close> and \<^verbatim>\<open>booleanCrosses\<close>, not part of the sources): a
  line is within a Polygon when all its vertices are on the stretch, and
  crosses it when some are and some are not.
\<close>

definition lineWithin :: "json \<Rightarrow> json \<Rightarrow> bool" where
  "lineWithin line polygon = list_all (\<lambda>v. onStretch polygon (place v)) (vertices line)"

definition lineCrosses :: "json \<Rightarrow> json \<Rightarrow> bool" where
  "lineCrosses line polygon =
     (list_ex (\<lambda>v. onStretch polygon (place v)) (vertices line) \<and>
      list_ex (\<lambda>v. \<not> onStretch polygon (place v)) (vertices line))"

text \<open>
  Modelled from the spec: the Selector Compiler (\<^verbatim>\<open>./selector\<close>, not part of the
  sources) on the selectors of the examples, which hold geospatial operators
  only: these are not embedded in the predicate, which therefore accepts every
  document.
\<close>

definition acceptAll :: "json \<Rightarrow> json \<Rightarrow> bool" where
  "acceptAll selector doc = True"

text \<open>
  Modelled from the spec: the Sort Compiler (\<^verbatim>\<open>./selector\<close>, not part of the
  sources) on a sort specification that lists one field, \<^verbatim>\<open>["a"]\<close>: ascending
  by the number under that field.
\<close>

definition sortByField :: "json \<Rightarrow> json \<Rightarrow> json \<Rightarrow> int" where
  "sortByField sortSpec a b =
     (case (readProp sortSpec ''0'', readProp a (case readProp sortSpec ''0'' of JStr f \<Rightarrow> f | _ \<Rightarrow> []),
            readProp b (case readProp sortSpec ''0'' of JStr f \<Rightarrow> f | _ \<Rightarrow> [])) of
        (JStr f, JNum x, JNum y) \<Rightarrow> compareAscending x y
      | _ \<Rightarrow> 0)"

definition onTheLine :: externals where
  "onTheLine =
     \<lparr> compileDocumentSelector = acceptAll,
       compileSort = sortByField,
       distance = lineDistance,
       nearestPointOnLine = lineNearest,
       booleanPointInPolygon = linePointInPolygon,
       intersect = lineIntersect,
       booleanCrosses = lineCrosses,
       booleanWithin = lineWithin \<rparr>"



text \<open>GeoJSON values on the line.\<close>

definition Point :: "real \<Rightarrow> json" where
  "Point x = JObj [(''type'', JStr ''Point''), (''coordinates'', JArr [JNum (Fin x), JNum (Fin 0)])]"

definition LineString :: "real list \<Rightarrow> json" where
  "LineString xs =
     JObj [(''type'', JStr ''LineString''),
           (''coordinates'', JArr (map (\<lambda>x. JArr [JNum (Fin x), JNum (Fin 0)]) xs))]"

definition ring :: "real \<Rightarrow> real \<Rightarrow> json" where
  "ring lo hi = JArr [JArr [JNum (Fin lo), JNum (Fin 0)], JArr [JNum (Fin hi), JNum (Fin 0)],
                      JArr [JNum (Fin lo), JNum (Fin 0)]]"

definition Polygon :: "real \<Rightarrow> real \<Rightarrow> json" where
  "Polygon lo hi = JObj [(''type'', JStr ''Polygon''), (''coordinates'', JArr [ring lo hi])]"

definition MultiPolygon :: "(real \<times> real) list \<Rightarrow> json" where
  "MultiPolygon stretches =
     JObj [(''type'', JStr ''MultiPolygon''),
           (''coordinates'', JArr (map (\<lambda>s. JArr [ring (fst s) (snd s)]) stretches))]"

definition MultiLineString :: "real list list \<Rightarrow> json" where
  "MultiLineString xss =
     JObj [(''type'', JStr ''MultiLineString''),
           (''coordinates'', JArr (map (\<lambda>xs. JArr (map (\<lambda>x. JArr [JNum (Fin x), JNum (Fin 0)]) xs)) xss))]"

text \<open>Documents and selectors of the worked examples.\<close>

definition docAt :: "string \<Rightarrow> json \<Rightarrow> real \<Rightarrow> json" where
  "docAt ident geometry a = JObj [(''_id'', JStr ident), (''loc'', geometry), (''a'', JNum (Fin a))]"

definition nearSelector :: "json \<Rightarrow> json \<Rightarrow> json" where
  "nearSelector geometry maxDistance =
     JObj [(''loc'', JObj [(''$near'', JObj [(''$geometry'', geometry), (''$maxDistance'', maxDistance)])])]"

definition intersectsSelector :: "json \<Rightarrow> json" where
  "intersectsSelector geometry =
     JObj [(''loc'', JObj [(''$geoIntersects'', JObj [(''$geometry'', geometry)])])]"

section \<open>Properties\<close>

subsection \<open>Errors and the sequential combinators\<close>

lemma bindE_simps [simp]: "bindE (Inl e) f = Inl e" "bindE (Inr x) f = f x"
  by (simp_all add: bindE_def)

lemma bindE_Inl_iff: "bindE m f = Inl e \<longleftrightarrow> m = Inl e \<or> (\<exists>x. m = Inr x \<and> f x = Inl e)"
  by (cases m) auto

lemma bindE_Inr_iff: "bindE m f = Inr y \<longleftrightarrow> (\<exists>x. m = Inr x \<and> f x = Inr y)"
  by (cases m) auto

lemma truthy_not_nullish: "truthy v \<Longrightarrow> \<not> nullish v"
  by (cases v) auto

lemma get_prop_Inl: "get_prop v k = Inl e \<Longrightarrow> e = TypeError"
  by (auto simp: get_prop_def split: if_splits)

lemma get_prop_Inr [simp]: "\<not> nullish v \<Longrightarrow> get_prop v k = Inr (readProp v k)"
  by (simp add: get_prop_def)

lemma filterE_Inr: "filterE p xs = Inr ys \<Longrightarrow> set ys \<subseteq> set xs \<and> (\<forall>y\<in>set ys. p y = Inr True)"
proof (induction xs arbitrary: ys)
  case Nil
  then show ?case by simp
next
  case (Cons x xs)
  then show ?case by (auto simp: bindE_Inr_iff split: if_splits)
qed

lemma filterE_Inl: "filterE p xs = Inl e \<Longrightarrow> \<exists>x\<in>set xs. p x = Inl e"
  by (induction xs) (auto simp: bindE_Inl_iff)

lemma mapE_Inl: "mapE f xs = Inl e \<Longrightarrow> \<exists>x\<in>set xs. f x = Inl e"
  by (induction xs) (auto simp: bindE_Inl_iff)

text \<open>A callback that never throws makes the sequential filter the ordinary one.\<close>

lemma filterE_pure: "\<forall>x\<in>set xs. p x = Inr (q x) \<Longrightarrow> filterE p xs = Inr (filter q xs)"
  by (induction xs) auto

lemma mapE_pure: "\<forall>x\<in>set xs. f x = Inr (g x) \<Longrightarrow> mapE f xs = Inr (map g xs)"
  by (induction xs) auto

subsection \<open>Which errors a stage can raise\<close>

lemma nearTarget_Inl: "nearTarget key doc = Inl e \<Longrightarrow> e = TypeError"
  by (auto simp: nearTarget_def bindE_Inl_iff dest: get_prop_Inl split: if_splits)

lemma nearTarget_True_getDistance:
  assumes "nearTarget key doc = Inr True"
  shows "\<exists>v d. get_prop doc key = Inr v \<and> getDistance E geo v = Inr d"
  using assms
  by (auto simp: nearTarget_def getDistance_def bindE_Inr_iff get_prop_def truthy_not_nullish
      split: if_splits)

lemma withinMax_Inl: "withinMax m d = Inl e \<Longrightarrow> e = OutsideModel"
  by (cases m) auto

lemma nearStep_not_unsupported: "nearStep E key near geo list \<noteq> Inl UnsupportedType"
proof
  assume a: "nearStep E key near geo list = Inl UnsupportedType"
  show False
  proof (cases "filterE (nearTarget key) list")
    case (Inl e)
    with a have "e = UnsupportedType" by (simp add: nearStep_def)
    with Inl filterE_Inl nearTarget_Inl show False by fastforce
  next
    case (Inr list1)
    let ?f = "\<lambda>doc. bindE (get_prop doc key) (\<lambda>v. bindE (getDistance E geo v) (\<lambda>d. Inr (doc, d)))"
    have ok: "\<forall>doc\<in>set list1. \<exists>p. ?f doc = Inr p"
      using filterE_Inr [OF Inr] nearTarget_True_getDistance [of key _ E geo] by fastforce
    show False
    proof (cases "mapE ?f list1")
      case (Inl e)
      with mapE_Inl ok show False by fastforce
    next
      case (Inr distances)
      with a \<open>filterE (nearTarget key) list = Inr list1\<close> show False
        by (auto simp: nearStep_def Let_def bindE_Inl_iff dest!: filterE_Inl withinMax_Inl
            split: if_splits)
    qed
  qed
qed

lemma nearLoop_not_unsupported: "nearLoop E entries list \<noteq> Inl UnsupportedType"
proof (induction entries arbitrary: list)
  case Nil
  then show ?case by simp
next
  case (Cons kv entries)
  obtain key val where kv: "kv = (key, val)" by (cases kv)
  show ?case using Cons nearStep_not_unsupported
    by (auto simp: kv bindE_Inl_iff dest: get_prop_Inl)
qed

lemma iterate_Inl: "iterate v = Inl e \<Longrightarrow> e = TypeError"
  by (cases v) auto

lemma multiLineLoop_Inl: "multiLineLoop E geo lines = Inl e \<Longrightarrow> e = TypeError"
  by (induction lines) (auto simp: bindE_Inl_iff dest: get_prop_Inl split: if_splits)

lemma geoIntersectsDoc_Inl: "geoIntersectsDoc E key geo doc = Inl e \<Longrightarrow> e = TypeError"
  by (auto simp: geoIntersectsDoc_def bindE_Inl_iff
      dest: get_prop_Inl iterate_Inl multiLineLoop_Inl split: if_splits)

lemma geoLoop_Inl: "geoLoop E entries list = Inl e \<Longrightarrow> e = TypeError"
proof (induction entries arbitrary: list)
  case Nil
  then show ?case by simp
next
  case (Cons kv entries)
  obtain key val where kv: "kv = (key, val)" by (cases kv)
  show ?case using Cons
    by (auto simp: kv bindE_Inl_iff dest: get_prop_Inl dest!: filterE_Inl geoIntersectsDoc_Inl
        split: if_splits)
qed

lemma set_prop_Inl: "set_prop v k x = Inl e \<Longrightarrow> e \<noteq> UnsupportedType"
  by (cases v) auto

lemma readMember_Inl: "readMember v k = Inl e \<Longrightarrow> e \<noteq> UnsupportedType"
  by (cases v) (auto split: option.splits if_splits)

lemma writeMember_Inl: "writeMember v k x = Inl e \<Longrightarrow> e \<noteq> UnsupportedType"
  by (auto simp: writeMember_def dest: set_prop_Inl split: if_splits)

lemma existsWalk_Inl: "existsWalk obj path = Inl e \<Longrightarrow> e \<noteq> UnsupportedType"
  by (induction path arbitrary: obj) (auto simp: bindE_Inl_iff dest: readMember_Inl split: if_splits)

lemma copyPath_Inl: "copyPath to from path = Inl e \<Longrightarrow> e \<noteq> UnsupportedType"
  by (induction to "from" path rule: copyPath.induct)
     (auto simp: bindE_Inl_iff dest: readMember_Inl writeMember_Inl)

lemma includeLoop_Inl: "includeLoop item fs newItem = Inl e \<Longrightarrow> e \<noteq> UnsupportedType"
  by (induction fs arbitrary: newItem)
     (auto simp: bindE_Inl_iff dest: copyPath_Inl existsWalk_Inl split: if_splits)

lemma delete_prop_Inl: "delete_prop v k = Inl e \<Longrightarrow> e = TypeError"
  by (cases v) (auto split: if_splits option.splits)

lemma deletePath_Inl: "deletePath obj path = Inl e \<Longrightarrow> e \<noteq> UnsupportedType"
  by (induction obj path rule: deletePath.induct)
     (auto simp: bindE_Inl_iff dest: delete_prop_Inl readMember_Inl split: if_splits)

lemma excludeLoop_Inl: "excludeLoop fs item = Inl e \<Longrightarrow> e \<noteq> UnsupportedType"
  by (induction fs arbitrary: item) (auto simp: bindE_Inl_iff dest: deletePath_Inl)

lemma projectItem_Inl: "projectItem flds item = Inl e \<Longrightarrow> e \<noteq> UnsupportedType"
  by (auto simp: projectItem_def deepClone_def bindE_Inl_iff
      dest: includeLoop_Inl excludeLoop_Inl split: if_splits)

lemma filterFields_Inl: "filterFields items flds = Inl e \<Longrightarrow> e \<noteq> UnsupportedType"
  by (auto simp: filterFields_def dest!: mapE_Inl projectItem_Inl split: if_splits)

lemma sliceFrom_Inl: "sliceFrom xs v = Inl e \<Longrightarrow> e = OutsideModel"
  by (induction xs v rule: sliceFrom.induct) auto

lemma takeN_Inl: "takeN xs v = Inl e \<Longrightarrow> e = OutsideModel"
  by (induction xs v rule: takeN.induct) auto

lemma processFind_not_unsupported: "processFind E items selector options \<noteq> Inl UnsupportedType"
proof
  assume "processFind E items selector options = Inl UnsupportedType"
  then show False
    unfolding processFind_def processNearOperator_def processGeoIntersectsOperator_def
    using nearLoop_not_unsupported
    by (auto simp: bindE_Inl_iff dest: geoLoop_Inl sliceFrom_Inl takeN_Inl filterFields_Inl
        split: if_splits)
qed

subsection \<open>Evaluating the worked examples\<close>

lemmas example_defs =
  docAt_def nearSelector_def intersectsSelector_def Point_def LineString_def Polygon_def
  MultiPolygon_def MultiLineString_def ring_def outerRings_def stretchesMeet_def polygonOf_def
  onTheLine_def acceptAll_def sortByField_def lineDistance_def lineNearest_def
  linePointInPolygon_def lineIntersect_def lineWithin_def lineCrosses_def vertices_def
  onStretch_def place_def gap_def

lemmas eval_defs =
  processFind_def processNearOperator_def processGeoIntersectsOperator_def nearStep_def
  nearTarget_def getDistance_def geoIntersectsDoc_def hasOperator_def geometryOf_def
  get_prop_def obj_get_def parse_index_def digit_of_def option_of_def
  num_ge_def num_lt_def compareAscending_def sortByDistance_def stableSort_def arraySort_def
  filterFields_def projectItem_def inclusionMode_def js_keys_def js_values_def deepClone_def
  pointInPolygon_def polygonIntersection_def crossesOrWithin_def lineStringOf_def trunc_def

subsection \<open>The unsupported-geometry error cannot be reached from a query\<close>

text \<open>
  C9. Inside \<^verbatim>\<open>processNearOperator\<close> the throwing branch of \<^verbatim>\<open>getDistance\<close> is
  unreachable: every document that passes the filter on the type of its target
  field (Point or LineString) gets a distance, so \<^verbatim>\<open>processNearOperator\<close>, and
  with it \<^verbatim>\<open>processFind\<close>, never raises the unsupported-geometry error,
  whatever the selector, the documents and the options are.
\<close>

theorem getDistance_throw_unreachable:
  "(\<forall>doc. nearTarget key doc = Inr True \<longrightarrow>
      (\<exists>d. bindE (get_prop doc key) (getDistance E geo) = Inr d)) \<and>
   processNearOperator E selector list \<noteq> Inl UnsupportedType \<and>
   processFind E items selector options \<noteq> Inl UnsupportedType"
proof (intro conjI allI impI)
  fix doc assume "nearTarget key doc = Inr True"
  from nearTarget_True_getDistance [OF this, of E geo]
  show "\<exists>d. bindE (get_prop doc key) (getDistance E geo) = Inr d" by auto
next
  show "processNearOperator E selector list \<noteq> Inl UnsupportedType"
    by (simp add: processNearOperator_def nearLoop_not_unsupported)
next
  show "processFind E items selector options \<noteq> Inl UnsupportedType"
    by (rule processFind_not_unsupported)
qed

theorem getDistance_throw_unreachable_witness:
  "nearTarget ''loc'' (docAt ''a'' (Point 100) 2) = Inr True \<and>
   (\<exists>d. bindE (get_prop (docAt ''a'' (Point 100) 2) ''loc'') (getDistance onTheLine (Point 0)) = Inr d) \<and>
   processNearOperator onTheLine (nearSelector (Point 0) JUndef)
     [docAt ''p'' (Polygon 0 10) 1, docAt ''a'' (Point 100) 2] = Inr [docAt ''a'' (Point 100) 2] \<and>
   processFind onTheLine [docAt ''p'' (Polygon 0 10) 1, docAt ''a'' (Point 100) 2]
     (nearSelector (Point 0) JUndef) JUndef \<noteq> Inl UnsupportedType"
proof -
  have t: "nearTarget ''loc'' (docAt ''a'' (Point 100) 2) = Inr True"
    by (simp add: eval_defs example_defs)
  have n: "processNearOperator onTheLine (nearSelector (Point 0) JUndef)
     [docAt ''p'' (Polygon 0 10) 1, docAt ''a'' (Point 100) 2] = Inr [docAt ''a'' (Point 100) 2]"
    by (simp add: eval_defs example_defs)
  from getDistance_throw_unreachable [of "''loc''" onTheLine "Point 0"
      "nearSelector (Point 0) JUndef" "[docAt ''p'' (Polygon 0 10) 1, docAt ''a'' (Point 100) 2]"
      "[docAt ''p'' (Polygon 0 10) 1, docAt ''a'' (Point 100) 2]" JUndef] t n
  show ?thesis by blast
qed

subsection \<open>The distance function\<close>




subsection \<open>Sorting by a comparator\<close>

lemma mset_insertBy: "mset (insertBy cmp x xs) = add_mset x (mset xs)"
  by (induction xs) auto

lemma mset_stableSort: "mset (stableSort cmp xs) = mset xs"
  by (induction xs) (auto simp: stableSort_def mset_insertBy)

lemma set_insertBy: "set (insertBy cmp x xs) = insert x (set xs)"
  by (induction xs) auto

lemma set_stableSort: "set (stableSort cmp xs) = set xs"
  by (induction xs) (auto simp: stableSort_def set_insertBy)

lemma stableSort_Cons: "stableSort cmp (x # xs) = insertBy cmp x (stableSort cmp xs)"
  by (simp add: stableSort_def)

lemma stableSort_Nil [simp]: "stableSort cmp [] = []"
  by (simp add: stableSort_def)

lemma orders_total: "orders cmp S \<Longrightarrow> a \<in> S \<Longrightarrow> b \<in> S \<Longrightarrow> \<not> cmp a b \<le> 0 \<Longrightarrow> cmp b a \<le> 0"
  unfolding orders_def by blast

lemma orders_trans: "orders cmp S \<Longrightarrow> a \<in> S \<Longrightarrow> b \<in> S \<Longrightarrow> c \<in> S \<Longrightarrow> cmp a b \<le> 0 \<Longrightarrow> cmp b c \<le> 0 \<Longrightarrow> cmp a c \<le> 0"
  unfolding orders_def by blast

lemma sorted_insertBy:
  assumes ord: "orders cmp S" and x: "x \<in> S"
  shows "set xs \<subseteq> S \<Longrightarrow> sorted_wrt (\<lambda>a b. cmp a b \<le> 0) xs \<Longrightarrow>
         sorted_wrt (\<lambda>a b. cmp a b \<le> 0) (insertBy cmp x xs)"
proof (induction xs)
  case Nil
  then show ?case by simp
next
  case (Cons y ys)
  from Cons.prems have y: "y \<in> S" and ys: "set ys \<subseteq> S"
    and yle: "\<forall>z\<in>set ys. cmp y z \<le> 0" and sys: "sorted_wrt (\<lambda>a b. cmp a b \<le> 0) ys"
    by simp_all
  show ?case
  proof (cases "cmp x y \<le> 0")
    case True
    have "\<forall>z\<in>set ys. cmp x z \<le> 0"
      using orders_trans [OF ord x y _ True] ys yle by blast
    with True yle sys show ?thesis by simp
  next
    case False
    have yx: "cmp y x \<le> 0" by (rule orders_total [OF ord x y False])
    have "sorted_wrt (\<lambda>a b. cmp a b \<le> 0) (insertBy cmp x ys)"
      by (rule Cons.IH [OF ys sys])
    with False yx yle show ?thesis by (simp add: set_insertBy)
  qed
qed

lemma sorted_stableSort:
  assumes ord: "orders cmp S"
  shows "set xs \<subseteq> S \<Longrightarrow> sorted_wrt (\<lambda>a b. cmp a b \<le> 0) (stableSort cmp xs)"
proof (induction xs)
  case Nil
  then show ?case by simp
next
  case (Cons x xs)
  then have "sorted_wrt (\<lambda>a b. cmp a b \<le> 0) (stableSort cmp xs)" by simp
  moreover have "x \<in> S" "set (stableSort cmp xs) \<subseteq> S" using Cons.prems by (simp_all add: set_stableSort)
  ultimately show ?case
    unfolding stableSort_Cons by (intro sorted_insertBy [OF ord])
qed

lemma insertBy_map:
  "insertBy (\<lambda>a b. cmp (snd a) (snd b)) (x, f x) (map (\<lambda>x. (x, f x)) ys) =
   map (\<lambda>x. (x, f x)) (insertBy (\<lambda>a b. cmp (f a) (f b)) x ys)"
  by (induction ys) simp_all

lemma stableSort_map:
  "stableSort (\<lambda>a b. cmp (snd a) (snd b)) (map (\<lambda>x. (x, f x)) xs) =
   map (\<lambda>x. (x, f x)) (stableSort (\<lambda>a b. cmp (f a) (f b)) xs)"
  by (induction xs) (simp_all add: stableSort_Cons insertBy_map)

lemma num_le_refl: "a \<noteq> NaN \<Longrightarrow> num_le a a"
  by (cases a) simp_all

lemma num_le_total: "a \<noteq> NaN \<Longrightarrow> b \<noteq> NaN \<Longrightarrow> num_le a b \<or> num_le b a"
  by (cases a; cases b) auto

lemma num_le_trans: "num_le a b \<Longrightarrow> num_le b c \<Longrightarrow> num_le a c"
  by (cases a; cases b; cases c) simp_all

lemma num_le_not_NaN: "num_le a b \<Longrightarrow> a \<noteq> NaN \<and> b \<noteq> NaN"
  by (cases a; cases b) simp_all

lemma compareAscending_le: "a \<noteq> NaN \<Longrightarrow> b \<noteq> NaN \<Longrightarrow> compareAscending a b \<le> 0 \<longleftrightarrow> num_le a b"
  by (cases a; cases b) (simp_all add: compareAscending_def num_lt_def)

text \<open>On distances that are numbers, the comparison of lodash is an ordering.\<close>

lemma orders_compareAscending:
  "orders (\<lambda>a b. compareAscending (f a) (f b)) {x. f x \<noteq> NaN}"
  unfolding orders_def
proof (intro conjI ballI impI)
  fix a b assume "a \<in> {x. f x \<noteq> NaN}" "b \<in> {x. f x \<noteq> NaN}"
  then show "compareAscending (f a) (f b) \<le> 0 \<or> compareAscending (f b) (f a) \<le> 0"
    using num_le_total [of "f a" "f b"] by (simp add: compareAscending_le)
next
  fix a b c assume "a \<in> {x. f x \<noteq> NaN}" "b \<in> {x. f x \<noteq> NaN}" "c \<in> {x. f x \<noteq> NaN}"
    and "compareAscending (f a) (f b) \<le> 0" "compareAscending (f b) (f c) \<le> 0"
  then show "compareAscending (f a) (f c) \<le> 0"
    using num_le_trans [of "f a" "f b" "f c"] by (simp add: compareAscending_le)
qed

lemma sorted_wrt_compareAscending:
  assumes "\<forall>x\<in>set xs. f x \<noteq> NaN"
  shows "sorted_wrt (\<lambda>a b. num_le (f a) (f b)) (stableSort (\<lambda>a b. compareAscending (f a) (f b)) xs)"
proof -
  have sub: "set xs \<subseteq> {x. f x \<noteq> NaN}" using assms by blast
  have "sorted_wrt (\<lambda>a b. compareAscending (f a) (f b) \<le> 0)
          (stableSort (\<lambda>a b. compareAscending (f a) (f b)) xs)"
    by (rule sorted_stableSort [OF orders_compareAscending sub])
  then show ?thesis
  proof (rule sorted_wrt_mono_rel [rotated])
    fix a b
    assume "a \<in> set (stableSort (\<lambda>a b. compareAscending (f a) (f b)) xs)"
       and "b \<in> set (stableSort (\<lambda>a b. compareAscending (f a) (f b)) xs)"
       and "compareAscending (f a) (f b) \<le> 0"
    then show "num_le (f a) (f b)" using assms by (simp add: set_stableSort compareAscending_le)
  qed
qed

subsection \<open>The near step in closed form\<close>

lemma nearTarget_pure:
  "\<not> nullish doc \<Longrightarrow> nearTarget key doc = Inr (targetIsPointOrLine key doc)"
  by (auto simp: nearTarget_def targetIsPointOrLine_def)

lemma distance_of_target:
  assumes "\<not> nullish doc" "targetIsPointOrLine key doc"
  shows "bindE (get_prop doc key) (\<lambda>v. bindE (getDistance E geo v) (\<lambda>d. Inr (doc, d)))
         = Inr (doc, targetDistance E key geo doc)"
  using assms
  by (auto simp: targetIsPointOrLine_def targetDistance_def getDistance_def truthy_not_nullish)

lemma withinMax_pure: "withinMax (JNum m) d = Inr (underCeiling (JNum m) d)"
  by (simp add: underCeiling_def)

lemma nearStep_closed_form:
  assumes docs: "\<forall>doc\<in>set list. \<not> nullish doc"
    and md: "readProp near ''$maxDistance'' = md"
    and ceiling: "md = JUndef \<or> (\<exists>m. md = JNum m \<and> truthy md)"
  shows "nearStep E key near geo list = Inr (nearStage E key geo md list)"
proof -
  let ?g = "\<lambda>doc. (doc, targetDistance E key geo doc)"
  let ?td = "targetDistance E key geo"
  have f1: "filterE (nearTarget key) list = Inr (filter (targetIsPointOrLine key) list)"
    by (rule filterE_pure) (use docs nearTarget_pure in auto)
  have m1: "mapE (\<lambda>doc. bindE (get_prop doc key) (\<lambda>v. bindE (getDistance E geo v) (\<lambda>d. Inr (doc, d))))
              (filter (targetIsPointOrLine key) list) = Inr (map ?g (filter (targetIsPointOrLine key) list))"
    by (rule mapE_pure) (use docs distance_of_target in auto)
  have f2: "filter (\<lambda>item. num_ge (snd item) (Fin 0)) (map ?g xs)
            = map ?g (filter (\<lambda>doc. num_ge (?td doc) (Fin 0)) xs)" for xs
    by (induction xs) simp_all
  have f3: "filter (\<lambda>item. P (snd item)) (map ?g xs) = map ?g (filter (\<lambda>doc. P (?td doc)) xs)" for xs P
    by (induction xs) simp_all
  have fst_g: "map fst (map ?g xs) = xs" for xs by (induction xs) simp_all
  show ?thesis
  proof (cases "md = JUndef")
    case True
    with md show ?thesis
      by (simp add: nearStep_def f1 m1 f2 sortByDistance_def stableSort_map fst_g comp_def nearStage_def
          underCeiling_def)
  next
    case False
    with ceiling obtain m where m: "md = JNum m" "truthy md" by blast
    have f4: "filterE (\<lambda>item. Inr (q item)) ys = Inr (filter q ys)"
      for ys :: "(json \<times> jsnum) list" and q
      by (rule filterE_pure) simp
    from md m show ?thesis
      by (simp add: nearStep_def f1 m1 f2 sortByDistance_def stableSort_map f4 filter_map fst_g comp_def nearStage_def
          underCeiling_def)
  qed
qed

lemma nearLoop_skip:
  "\<forall>kv\<in>set pre. \<not> hasOperator ''$near'' (snd kv) \<Longrightarrow> nearLoop E (pre @ rest) list = nearLoop E rest list"
  by (induction pre) auto

lemma geoLoop_skip:
  "\<forall>kv\<in>set pre. \<not> hasOperator ''$geoIntersects'' (snd kv) \<Longrightarrow> geoLoop E (pre @ rest) list = geoLoop E rest list"
  by (induction pre) auto

lemma nearLoop_none:
  "\<forall>kv\<in>set entries. \<not> hasOperator ''$near'' (snd kv) \<Longrightarrow> nearLoop E entries list = Inr list"
  using nearLoop_skip [of entries E "[]" list] by simp

lemma geoLoop_none:
  "\<forall>kv\<in>set entries. \<not> hasOperator ''$geoIntersects'' (snd kv) \<Longrightarrow> geoLoop E entries list = Inr list"
  using geoLoop_skip [of entries E "[]" list] by simp

lemma type_not_nullish: "readProp v k = JStr s \<Longrightarrow> \<not> nullish v"
  by (cases v) auto

subsection \<open>The \<^verbatim>\<open>$near\<close> stage\<close>

text \<open>
  C3, as the code has it. For a selector whose one \<^verbatim>\<open>$near\<close> entry has a Point
  query geometry, with \<^verbatim>\<open>$maxDistance\<close> absent or a number other than 0, and a
  list of documents none of which is \<^verbatim>\<open>null\<close> or \<^verbatim>\<open>undefined\<close>, the stage
  returns exactly the documents whose target field is a Point or a LineString and
  whose distance is at least 0 (a distance of exactly 0 is kept; a negative
  distance and \<^verbatim>\<open>NaN\<close> are dropped) and at most \<^verbatim>\<open>$maxDistance\<close> when that is
  given, sorted ascending by distance. With documents at 100 m and at 2000 m and
  a ceiling of 1000, only the document at 100 m is returned.
\<close>

theorem near_stage_result:
  assumes selector: "for_in selector = pre @ (key, value) # post"
    and others: "\<forall>kv\<in>set (pre @ post). \<not> hasOperator ''$near'' (snd kv)"
    and near: "hasOperator ''$near'' value"
    and point: "readProp (geometryOf ''$near'' value) ''type'' = JStr ''Point''"
    and ceiling: "readProp (readProp value ''$near'') ''$maxDistance'' = JUndef \<or>
                  (\<exists>m. readProp (readProp value ''$near'') ''$maxDistance'' = JNum m \<and> m \<noteq> NaN \<and> m \<noteq> Fin 0)"
    and docs: "\<forall>doc\<in>set list. \<not> nullish doc"
  shows "\<exists>out. processNearOperator E selector list = Inr out \<and>
           out = nearStage E key (geometryOf ''$near'' value)
                   (readProp (readProp value ''$near'') ''$maxDistance'') list \<and>
           (\<forall>doc. doc \<in> set out \<longleftrightarrow>
              doc \<in> set list \<and> targetIsPointOrLine key doc \<and>
              num_ge (targetDistance E key (geometryOf ''$near'' value) doc) (Fin 0) \<and>
              underCeiling (readProp (readProp value ''$near'') ''$maxDistance'')
                (targetDistance E key (geometryOf ''$near'' value) doc)) \<and>
           sorted_wrt (\<lambda>a b. num_le (targetDistance E key (geometryOf ''$near'' value) a)
                                  (targetDistance E key (geometryOf ''$near'' value) b)) out"
proof -
  let ?geo = "geometryOf ''$near'' value"
  let ?md = "readProp (readProp value ''$near'') ''$maxDistance''"
  let ?td = "targetDistance E key ?geo"
  let ?kept = "filter (\<lambda>doc. num_ge (?td doc) (Fin 0)) (filter (targetIsPointOrLine key) list)"
  have step: "nearStep E key (readProp value ''$near'') ?geo list = Inr (nearStage E key ?geo ?md list)"
    by (rule nearStep_closed_form [OF docs refl]) (use ceiling in auto)
  have pre: "\<forall>kv\<in>set pre. \<not> hasOperator ''$near'' (snd kv)"
   and post: "\<forall>kv\<in>set post. \<not> hasOperator ''$near'' (snd kv)"
    using others by auto
  have run: "processNearOperator E selector list = Inr (nearStage E key ?geo ?md list)"
    using near point type_not_nullish [OF point]
    by (simp add: processNearOperator_def selector nearLoop_skip [OF pre] step nearLoop_none [OF post])
  have members: "doc \<in> set (nearStage E key ?geo ?md list) \<longleftrightarrow>
      doc \<in> set list \<and> targetIsPointOrLine key doc \<and> num_ge (?td doc) (Fin 0) \<and> underCeiling ?md (?td doc)"
    for doc
    by (auto simp: nearStage_def set_stableSort)
  have "\<forall>doc\<in>set ?kept. ?td doc \<noteq> NaN"
    using num_le_not_NaN by (auto simp: num_ge_def)
  then have "sorted_wrt (\<lambda>a b. num_le (?td a) (?td b))
               (stableSort (\<lambda>a b. compareAscending (?td a) (?td b)) ?kept)"
    by (rule sorted_wrt_compareAscending)
  then have sorted: "sorted_wrt (\<lambda>a b. num_le (?td a) (?td b)) (nearStage E key ?geo ?md list)"
    unfolding nearStage_def by (rule sorted_wrt_filter)
  from run members sorted show ?thesis by blast
qed

theorem near_stage_result_witness:
  "processNearOperator onTheLine (nearSelector (Point 0) (JNum (Fin 1000)))
     [docAt ''far'' (Point 2000) 1, docAt ''near'' (Point 100) 2]
   = Inr [docAt ''near'' (Point 100) 2]"
proof -
  let ?near = "JObj [(''$near'', JObj [(''$geometry'', Point 0), (''$maxDistance'', JNum (Fin 1000))])]"
  let ?list = "[docAt ''far'' (Point 2000) 1, docAt ''near'' (Point 100) 2]"
  have 1: "for_in (nearSelector (Point 0) (JNum (Fin 1000))) = [] @ (''loc'', ?near) # []"
    by (simp add: nearSelector_def obj_get_def)
  have 2: "\<forall>kv\<in>set ([] @ []). \<not> hasOperator ''$near'' (snd (kv :: string \<times> json))" by simp
  have 3: "hasOperator ''$near'' ?near" by (simp add: hasOperator_def obj_get_def)
  have 4: "readProp (geometryOf ''$near'' ?near) ''type'' = JStr ''Point''"
    by (simp add: geometryOf_def obj_get_def Point_def)
  have 5: "readProp (readProp ?near ''$near'') ''$maxDistance'' = JUndef \<or>
           (\<exists>m. readProp (readProp ?near ''$near'') ''$maxDistance'' = JNum m \<and> m \<noteq> NaN \<and> m \<noteq> Fin 0)"
    by (simp add: obj_get_def)
  have 6: "\<forall>doc\<in>set ?list. \<not> nullish doc" by (simp add: docAt_def)
  have 7: "nearStage onTheLine ''loc'' (geometryOf ''$near'' ?near)
             (readProp (readProp ?near ''$near'') ''$maxDistance'') ?list = [docAt ''near'' (Point 100) 2]"
    by (simp add: nearStage_def targetIsPointOrLine_def targetDistance_def underCeiling_def
        eval_defs example_defs)
  from near_stage_result [OF 1 2 3 4 5 6, of onTheLine] 7 show ?thesis by simp
qed

text \<open>
  The claim as the specification words it, that a distance which is not positive
  is dropped, fails for a document that sits on the query point: its distance is
  0 and it is returned.
\<close>

theorem near_keeps_distance_zero:
  "targetDistance onTheLine ''loc'' (Point 0) (docAt ''here'' (Point 0) 1) = Fin 0 \<and>
   processNearOperator onTheLine (nearSelector (Point 0) (JNum (Fin 1000))) [docAt ''here'' (Point 0) 1]
   = Inr [docAt ''here'' (Point 0) 1]"
  by (simp add: targetDistance_def eval_defs example_defs)

subsection \<open>A query geometry of the wrong type\<close>

text \<open>
  C5, as the code has it. A \<^verbatim>\<open>$near\<close> whose \<^verbatim>\<open>$geometry\<close> is not of type Point,
  and a \<^verbatim>\<open>$geoIntersects\<close> whose \<^verbatim>\<open>$geometry\<close> is not of type Polygon, end
  the loop of their stage with \<^verbatim>\<open>break\<close>: when it is the first entry of the
  selector that carries the operator, the stage returns the documents
  unchanged and raises nothing. Only a \<^verbatim>\<open>$geometry\<close> that is \<^verbatim>\<open>null\<close> or missing
  makes the stage throw, and then a \<^verbatim>\<open>TypeError\<close>.
\<close>

theorem malformed_geometry_passes:
  "(for_in selector = pre @ (key, near) # post \<and>
    (\<forall>kv\<in>set pre. \<not> hasOperator ''$near'' (snd kv)) \<and>
    hasOperator ''$near'' near \<and>
    readProp (geometryOf ''$near'' near) ''type'' \<noteq> JStr ''Point'' \<longrightarrow>
      processNearOperator E selector list =
        (if nullish (geometryOf ''$near'' near) then Inl TypeError else Inr list)) \<and>
   (for_in selector = pre' @ (key', geoInt) # post' \<and>
    (\<forall>kv\<in>set pre'. \<not> hasOperator ''$geoIntersects'' (snd kv)) \<and>
    hasOperator ''$geoIntersects'' geoInt \<and>
    readProp (geometryOf ''$geoIntersects'' geoInt) ''type'' \<noteq> JStr ''Polygon'' \<longrightarrow>
      processGeoIntersectsOperator E selector list =
        (if nullish (geometryOf ''$geoIntersects'' geoInt) then Inl TypeError else Inr list))"
  by (auto simp: processNearOperator_def processGeoIntersectsOperator_def nearLoop_skip geoLoop_skip
      get_prop_def)

theorem malformed_geometry_passes_witness:
  "processNearOperator onTheLine (nearSelector (LineString [0, 5]) JUndef)
     [docAt ''far'' (Point 2000) 1, docAt ''near'' (Point 100) 2]
     = Inr [docAt ''far'' (Point 2000) 1, docAt ''near'' (Point 100) 2] \<and>
   processGeoIntersectsOperator onTheLine (intersectsSelector (Point 5))
     [docAt ''far'' (Point 2000) 1, docAt ''near'' (Point 100) 2]
     = Inr [docAt ''far'' (Point 2000) 1, docAt ''near'' (Point 100) 2] \<and>
   processNearOperator onTheLine (nearSelector JUndef JUndef)
     [docAt ''far'' (Point 2000) 1] = Inl TypeError"
proof -
  let ?n = "JObj [(''$near'', JObj [(''$geometry'', LineString [0, 5]), (''$maxDistance'', JUndef)])]"
  let ?g = "JObj [(''$geoIntersects'', JObj [(''$geometry'', Point 5)])]"
  let ?u = "JObj [(''$near'', JObj [(''$geometry'', JUndef), (''$maxDistance'', JUndef)])]"
  have n: "for_in (nearSelector (LineString [0, 5]) JUndef) = [] @ (''loc'', ?n) # []"
    "hasOperator ''$near'' ?n"
    "readProp (geometryOf ''$near'' ?n) ''type'' \<noteq> JStr ''Point''"
    "\<not> nullish (geometryOf ''$near'' ?n)"
    by (simp_all add: nearSelector_def obj_get_def hasOperator_def geometryOf_def LineString_def)
  have g: "for_in (intersectsSelector (Point 5)) = [] @ (''loc'', ?g) # []"
    "hasOperator ''$geoIntersects'' ?g"
    "readProp (geometryOf ''$geoIntersects'' ?g) ''type'' \<noteq> JStr ''Polygon''"
    "\<not> nullish (geometryOf ''$geoIntersects'' ?g)"
    by (simp_all add: intersectsSelector_def obj_get_def hasOperator_def geometryOf_def Point_def)
  have u: "for_in (nearSelector JUndef JUndef) = [] @ (''loc'', ?u) # []"
    "hasOperator ''$near'' ?u"
    "readProp (geometryOf ''$near'' ?u) ''type'' \<noteq> JStr ''Point''"
    "nullish (geometryOf ''$near'' ?u)"
    by (simp_all add: nearSelector_def obj_get_def hasOperator_def geometryOf_def)
  have e: "\<forall>kv\<in>set []. \<not> hasOperator ''$near'' (snd (kv :: string \<times> json))"
          "\<forall>kv\<in>set []. \<not> hasOperator ''$geoIntersects'' (snd (kv :: string \<times> json))" by simp_all
  from malformed_geometry_passes [of "nearSelector (LineString [0, 5]) JUndef" "[]" "''loc''" ?n "[]"
         onTheLine "[docAt ''far'' (Point 2000) 1, docAt ''near'' (Point 100) 2]"] n e
  have 1: "processNearOperator onTheLine (nearSelector (LineString [0, 5]) JUndef)
     [docAt ''far'' (Point 2000) 1, docAt ''near'' (Point 100) 2]
     = Inr [docAt ''far'' (Point 2000) 1, docAt ''near'' (Point 100) 2]" by simp
  from malformed_geometry_passes [of "intersectsSelector (Point 5)" _ _ _ _ onTheLine
         "[docAt ''far'' (Point 2000) 1, docAt ''near'' (Point 100) 2]" "[]" "''loc''" ?g "[]"] g e
  have 2: "processGeoIntersectsOperator onTheLine (intersectsSelector (Point 5))
     [docAt ''far'' (Point 2000) 1, docAt ''near'' (Point 100) 2]
     = Inr [docAt ''far'' (Point 2000) 1, docAt ''near'' (Point 100) 2]" by simp
  from malformed_geometry_passes [of "nearSelector JUndef JUndef" "[]" "''loc''" ?u "[]"
         onTheLine "[docAt ''far'' (Point 2000) 1]"] u e
  have 3: "processNearOperator onTheLine (nearSelector JUndef JUndef)
     [docAt ''far'' (Point 2000) 1] = Inl TypeError" by simp
  from 1 2 3 show ?thesis by simp
qed

text \<open>
  The claim as the specification words it, that such a query fails with an
  error, does not hold: a query with a Polygon under \<^verbatim>\<open>$near\<close> and a query with
  a Point under \<^verbatim>\<open>$geoIntersects\<close> both return every document.
\<close>

theorem malformed_geometry_no_error:
  "processFind onTheLine [docAt ''far'' (Point 2000) 1, docAt ''near'' (Point 100) 2]
     (nearSelector (Polygon 0 10) (JNum (Fin 1000))) JUndef
     = Inr [docAt ''far'' (Point 2000) 1, docAt ''near'' (Point 100) 2] \<and>
   processFind onTheLine [docAt ''far'' (Point 2000) 1, docAt ''near'' (Point 100) 2]
     (intersectsSelector (Point 5)) JUndef
     = Inr [docAt ''far'' (Point 2000) 1, docAt ''near'' (Point 100) 2]"
  by (simp add: eval_defs example_defs)

subsection \<open>The order of the stages\<close>

lemma trunc_of_nat [simp]: "trunc (real n) = int n"
  by (simp add: trunc_def)

lemma arraySort_no_undef: "JUndef \<notin> set xs \<Longrightarrow> arraySort cmp xs = stableSort cmp xs"
proof -
  assume "JUndef \<notin> set xs"
  then have "filter (\<lambda>x. x \<noteq> JUndef) xs = xs" "filter (\<lambda>x. x = JUndef) xs = []"
    by (induction xs) auto
  then show ?thesis by (simp add: arraySort_def)
qed

lemma bindE_cong: "(\<And>x. f x = g x) \<Longrightarrow> bindE m f = bindE m g"
  by (cases m) simp_all

lemma bindE_return [simp]: "bindE m Inr = m"
  by (cases m) simp_all

text \<open>
  C2. \<^verbatim>\<open>processFind\<close> runs its stages in the order of the specification:
  selector filter, \<^verbatim>\<open>$near\<close>, \<^verbatim>\<open>$geoIntersects\<close>, sort, skip, limit, projection;
  the function as the source states it is the pipeline of the seven stages. In
  particular, for a selector without keys and options that ask for a sort, skip
  \<open>s\<close> and limit \<open>l\<close>, the result is the first \<open>l\<close> of what is left after
  dropping \<open>s\<close> of the sorted matches: skip comes before limit, and both after
  the sort.
\<close>

theorem processFind_stage_order:
  "processFind E items selector options = pipeline E selector options items \<and>
   (for_in selector = [] \<and> truthy options \<and>
    truthy (readProp options ''sort'') \<and>
    readProp options ''skip'' = JNum (Fin (real s)) \<and> 0 < s \<and>
    readProp options ''limit'' = JNum (Fin (real l)) \<and> 0 < l \<and>
    \<not> truthy (readProp options ''fields'') \<longrightarrow>
      processFind E items selector options =
        Inr (take l (drop s (arraySort (compileSort E (readProp options ''sort''))
                               (filter (compileDocumentSelector E selector) items)))))"
proof
  show "processFind E items selector options = pipeline E selector options items"
    unfolding processFind_def pipeline_def runStages.simps stage1_selector_def stage2_near_def
        stage3_geoIntersects_def stage4_sort_def stage5_skip_def stage6_limit_def
        stage7_projection_def bindE_simps
    by (intro bindE_cong refl) simp
next
  show "for_in selector = [] \<and> truthy options \<and>
    truthy (readProp options ''sort'') \<and>
    readProp options ''skip'' = JNum (Fin (real s)) \<and> 0 < s \<and>
    readProp options ''limit'' = JNum (Fin (real l)) \<and> 0 < l \<and>
    \<not> truthy (readProp options ''fields'') \<longrightarrow>
      processFind E items selector options =
        Inr (take l (drop s (arraySort (compileSort E (readProp options ''sort''))
                               (filter (compileDocumentSelector E selector) items))))"
    by (simp add: processFind_def processNearOperator_def processGeoIntersectsOperator_def option_of_def)
qed


theorem processFind_stage_order_witness:
  "processFind onTheLine
     [docAt ''c'' (Point 3) 3, docAt ''a'' (Point 1) 1, docAt ''b'' (Point 2) 2] (JObj [])
     (JObj [(''sort'', JArr [JStr ''a'']), (''skip'', JNum (Fin 1)), (''limit'', JNum (Fin 1))])
   = Inr [docAt ''b'' (Point 2) 2]"
proof -
  let ?options = "JObj [(''sort'', JArr [JStr ''a'']), (''skip'', JNum (Fin 1)), (''limit'', JNum (Fin 1))]"
  let ?items = "[docAt ''c'' (Point 3) 3, docAt ''a'' (Point 1) 1, docAt ''b'' (Point 2) 2]"
  have h: "for_in (JObj []) = []" "truthy ?options" "truthy (readProp ?options ''sort'')"
    "readProp ?options ''skip'' = JNum (Fin (real (1::nat)))" "0 < (1::nat)"
    "readProp ?options ''limit'' = JNum (Fin (real (1::nat)))"
    "\<not> truthy (readProp ?options ''fields'')"
    by (simp_all add: obj_get_def)
  have v: "take 1 (drop 1 (arraySort (compileSort onTheLine (readProp ?options ''sort''))
             (filter (compileDocumentSelector onTheLine (JObj [])) ?items))) = [docAt ''b'' (Point 2) 2]"
    by (simp add: eval_defs example_defs)
  from processFind_stage_order [of onTheLine ?items "JObj []" ?options 1 1]
  have "processFind onTheLine ?items (JObj []) ?options
        = Inr (take 1 (drop 1 (arraySort (compileSort onTheLine (readProp ?options ''sort''))
             (filter (compileDocumentSelector onTheLine (JObj [])) ?items))))"
    using h by blast
  then show ?thesis unfolding v .
qed

lemma sliceFrom_drop: "sliceFrom xs v = Inr ys \<Longrightarrow> \<exists>s. ys = drop s xs"
proof (induction xs v rule: sliceFrom.induct)
  case (2 xs)
  then have "ys = drop (length xs) xs" by simp
  then show ?case by blast
next
  case (4 xs b)
  then have "ys = drop (if b then 1 else 0) xs" by (cases b) auto
  then show ?case by blast
qed (auto intro: exI [of _ 0] split: if_splits)

lemma takeN_take: "takeN xs v = Inr ys \<Longrightarrow> \<exists>l. ys = take l xs"
proof (induction xs v rule: takeN.induct)
  case (2 xs)
  then have "ys = take (length xs) xs" by simp
  then show ?case by blast
next
  case (4 xs b)
  then have "ys = take (if b then 1 else 0) xs" by (cases b) auto
  then show ?case by blast
qed (auto intro: exI [of _ 0])

lemma mset_take_le: "mset (take l xs) \<subseteq># mset xs"
proof -
  have "mset xs = mset (take l xs) + mset (drop l xs)"
    by (metis append_take_drop_id mset_append)
  then show ?thesis by simp
qed

lemma mset_drop_le: "mset (drop s xs) \<subseteq># mset xs"
proof -
  have "mset xs = mset (take s xs) + mset (drop s xs)"
    by (metis append_take_drop_id mset_append)
  then show ?thesis by simp
qed

text \<open>Skip and limit keep a run of consecutive documents, in their order.\<close>

lemma skip_limit_run:
  assumes "runStages [stage5_skip options, stage6_limit options] xs = Inr kept"
  shows "\<exists>s l. kept = take l (drop s xs)"
proof -
  from assms obtain ys where s: "stage5_skip options xs = Inr ys" and l: "stage6_limit options ys = Inr kept"
    by (auto simp: bindE_Inr_iff)
  from s have "\<exists>s. ys = drop s xs"
    by (auto simp: stage5_skip_def dest: sliceFrom_drop intro: exI [of _ 0] split: if_splits)
  moreover from l have "\<exists>l. kept = take l ys"
    by (auto simp: stage6_limit_def dest: takeN_take intro: exI [of _ "length ys"] split: if_splits)
  ultimately show ?thesis by blast
qed

lemma mapE_length: "mapE f xs = Inr ys \<Longrightarrow> length ys = length xs"
  by (induction xs arbitrary: ys) (auto simp: bindE_Inr_iff)

lemma stage7_length: "stage7_projection options docs = Inr out \<Longrightarrow> length out = length docs"
  by (auto simp: stage7_projection_def filterFields_def dest: mapE_length split: if_splits)

lemma processFind_after_geo:
  assumes "bindE (processNearOperator E selector (filter (compileDocumentSelector E selector) items))
             (processGeoIntersectsOperator E selector) = Inr found"
  shows "processFind E items selector options =
           bindE (runStages [stage5_skip options, stage6_limit options]
                    (if truthy (option_of options ''sort'')
                     then arraySort (compileSort E (readProp options ''sort'')) found else found))
             (stage7_projection options)"
proof -
  from assms obtain near where
    near: "processNearOperator E selector (filter (compileDocumentSelector E selector) items) = Inr near"
    and geo: "processGeoIntersectsOperator E selector near = Inr found"
    by (auto simp: bindE_Inr_iff)
  have assoc: "bindE (bindE m f) g = bindE m (\<lambda>x. bindE (f x) g)" for m :: "error + 'a" and f :: "'a \<Rightarrow> error + 'b" and g :: "'b \<Rightarrow> error + 'c"
    by (cases m) simp_all
  show ?thesis
    by (cases "truthy (option_of options ''sort'')")
       (simp_all add: processFind_def near geo stage5_skip_def stage6_limit_def
          stage7_projection_def assoc)
qed

text \<open>
  C1, as the code has it. The sort stage is not skipped after a \<^verbatim>\<open>$near\<close>.
  Whatever the options are, \<^verbatim>\<open>processFind\<close> is skip, limit and projection
  applied to the documents that leave the first three stages, sorted by the
  compiled comparator whenever \<^verbatim>\<open>options.sort\<close> is truthy and as they are (in
  the order by distance) only when it is not. With a comparator that orders
  the documents, the sorted list is in the order of \<^verbatim>\<open>options.sort\<close> and holds
  the same documents; the documents that skip and limit keep are in that order
  too, and they are the ones the result is made of, one for one; without a
  projection they are the result. In particular, with a sort and a limit as in
  the example of the README, the result is the start of the sorted list.
\<close>

theorem sort_runs_after_near:
  assumes found: "bindE (processNearOperator E selector (filter (compileDocumentSelector E selector) items))
                    (processGeoIntersectsOperator E selector) = Inr found"
  shows "processFind E items selector options =
           bindE (runStages [stage5_skip options, stage6_limit options]
                    (if truthy (option_of options ''sort'')
                     then arraySort (compileSort E (readProp options ''sort'')) found else found))
             (stage7_projection options) \<and>
         (truthy (option_of options ''sort'') \<and>
          orders (compileSort E (readProp options ''sort'')) (set found) \<and> JUndef \<notin> set found \<longrightarrow>
            sorted_wrt (\<lambda>a b. compileSort E (readProp options ''sort'') a b \<le> 0)
              (arraySort (compileSort E (readProp options ''sort'')) found) \<and>
            mset (arraySort (compileSort E (readProp options ''sort'')) found) = mset found \<and>
            (\<forall>kept. runStages [stage5_skip options, stage6_limit options]
                      (arraySort (compileSort E (readProp options ''sort'')) found) = Inr kept \<longrightarrow>
               sorted_wrt (\<lambda>a b. compileSort E (readProp options ''sort'') a b \<le> 0) kept \<and>
               mset kept \<subseteq># mset found \<and>
               processFind E items selector options = stage7_projection options kept \<and>
               (\<forall>out. processFind E items selector options = Inr out \<longrightarrow> length out = length kept) \<and>
               (\<not> truthy (option_of options ''fields'') \<longrightarrow>
                  processFind E items selector options = Inr kept))) \<and>
         (truthy (option_of options ''sort'') \<and> \<not> truthy (option_of options ''skip'') \<and>
          readProp options ''limit'' = JNum (Fin (real l)) \<and> 0 < l \<and>
          \<not> truthy (option_of options ''fields'') \<longrightarrow>
            processFind E items selector options =
              Inr (take l (arraySort (compileSort E (readProp options ''sort'')) found)))"
proof (intro conjI impI allI)
  let ?cmp = "compileSort E (readProp options ''sort'')"
  let ?R = "\<lambda>a b. ?cmp a b \<le> 0"
  note run = processFind_after_geo [OF found, of options]
  show "processFind E items selector options =
           bindE (runStages [stage5_skip options, stage6_limit options]
                    (if truthy (option_of options ''sort'') then arraySort ?cmp found else found))
             (stage7_projection options)"
    by (rule run)
  {
    assume a: "truthy (option_of options ''sort'') \<and> orders ?cmp (set found) \<and> JUndef \<notin> set found"
    then have eq: "arraySort ?cmp found = stableSort ?cmp found"
      by (simp add: arraySort_no_undef)
    from a show sorted: "sorted_wrt ?R (arraySort ?cmp found)"
      unfolding eq by (intro sorted_stableSort [of _ "set found"]) simp_all
    show same: "mset (arraySort ?cmp found) = mset found"
      unfolding eq by (rule mset_stableSort)
    fix kept
    assume k: "runStages [stage5_skip options, stage6_limit options] (arraySort ?cmp found) = Inr kept"
    from skip_limit_run [OF k] obtain s l' where kept: "kept = take l' (drop s (arraySort ?cmp found))"
      by blast
    show "sorted_wrt ?R kept"
      unfolding kept using sorted by (intro sorted_wrt_take sorted_wrt_drop)
    have "mset kept \<subseteq># mset (arraySort ?cmp found)"
      unfolding kept using mset_take_le mset_drop_le by (rule subset_mset.order_trans)
    then show "mset kept \<subseteq># mset found" unfolding same .
    from a k show out: "processFind E items selector options = stage7_projection options kept"
      unfolding run by simp
    show "length out = length kept" if "processFind E items selector options = Inr out" for out
      using that unfolding out by (rule stage7_length)
    show "processFind E items selector options = Inr kept" if "\<not> truthy (option_of options ''fields'')"
      using that unfolding out by (simp add: stage7_projection_def)
  }
  assume "truthy (option_of options ''sort'') \<and> \<not> truthy (option_of options ''skip'') \<and>
          readProp options ''limit'' = JNum (Fin (real l)) \<and> 0 < l \<and>
          \<not> truthy (option_of options ''fields'')"
  then show "processFind E items selector options = Inr (take l (arraySort ?cmp found))"
    unfolding run
    by (auto simp: stage5_skip_def stage6_limit_def stage7_projection_def option_of_def split: if_splits)
qed

theorem sort_runs_after_near_witness:
  "processFind onTheLine
     [docAt ''near'' (Point 100) 2, docAt ''far'' (Point 2000) 1, docAt ''mid'' (Point 500) 3]
     (nearSelector (Point 0) JUndef) (JObj [(''sort'', JArr [JStr ''a'']), (''limit'', JNum (Fin 2))])
   = Inr [docAt ''far'' (Point 2000) 1, docAt ''near'' (Point 100) 2] \<and>
   sorted_wrt
     (\<lambda>a b. compileSort onTheLine
              (readProp (JObj [(''sort'', JArr [JStr ''a'']), (''limit'', JNum (Fin 2))]) ''sort'') a b \<le> 0)
     [docAt ''far'' (Point 2000) 1, docAt ''near'' (Point 100) 2] \<and>
   processFind onTheLine
     [docAt ''near'' (Point 100) 2, docAt ''far'' (Point 2000) 1, docAt ''mid'' (Point 500) 3]
     (nearSelector (Point 0) JUndef) (JObj [])
   = Inr [docAt ''near'' (Point 100) 2, docAt ''mid'' (Point 500) 3, docAt ''far'' (Point 2000) 1]"
proof -
  let ?items = "[docAt ''near'' (Point 100) 2, docAt ''far'' (Point 2000) 1, docAt ''mid'' (Point 500) 3]"
  let ?found = "[docAt ''near'' (Point 100) 2, docAt ''mid'' (Point 500) 3, docAt ''far'' (Point 2000) 1]"
  let ?kept = "[docAt ''far'' (Point 2000) 1, docAt ''near'' (Point 100) 2]"
  let ?sel = "nearSelector (Point 0) JUndef"
  let ?opts = "JObj [(''sort'', JArr [JStr ''a'']), (''limit'', JNum (Fin 2))]"
  let ?cmp = "compileSort onTheLine (readProp ?opts ''sort'')"
  have f: "bindE (processNearOperator onTheLine ?sel (filter (compileDocumentSelector onTheLine ?sel) ?items))
             (processGeoIntersectsOperator onTheLine ?sel) = Inr ?found"
    by (simp add: eval_defs example_defs)
  have o: "truthy (option_of ?opts ''sort'')" "\<not> truthy (option_of ?opts ''skip'')"
          "readProp ?opts ''limit'' = JNum (Fin (real (2::nat)))" "0 < (2::nat)"
          "\<not> truthy (option_of ?opts ''fields'')"
    by (simp_all add: option_of_def obj_get_def)
  have ord: "orders ?cmp (set ?found)"
    unfolding orders_def by (simp add: eval_defs example_defs)
  have defined: "JUndef \<notin> set ?found"
    by (simp add: example_defs)
  have k: "runStages [stage5_skip ?opts, stage6_limit ?opts] (arraySort ?cmp ?found) = Inr ?kept"
    by (simp add: eval_defs example_defs stage5_skip_def stage6_limit_def)
  have s: "take 2 (arraySort ?cmp ?found) = ?kept"
    by (simp add: eval_defs example_defs)
  have n: "bindE (runStages [stage5_skip (JObj []), stage6_limit (JObj [])]
                    (if truthy (option_of (JObj []) ''sort'')
                     then arraySort (compileSort onTheLine (readProp (JObj []) ''sort'')) ?found else ?found))
             (stage7_projection (JObj [])) = Inr ?found"
    by (simp add: stage5_skip_def stage6_limit_def stage7_projection_def option_of_def obj_get_def)
  note sorted = sort_runs_after_near [OF f, of ?opts 2]
  from sorted o have 1: "processFind onTheLine ?items ?sel ?opts = Inr (take 2 (arraySort ?cmp ?found))"
    by blast
  from sorted o(1) ord defined k have 2: "sorted_wrt (\<lambda>a b. ?cmp a b \<le> 0) ?kept"
    by blast
  from sort_runs_after_near [OF f, of "JObj []" 0]
  have 3: "processFind onTheLine ?items ?sel (JObj []) = Inr ?found"
    unfolding n by blast
  from 1 2 3 show ?thesis unfolding s by (intro conjI)
qed

text \<open>
  The claim as the specification words it fails on two documents whose order by
  the sort field is the reverse of their order by distance: the result is in
  the order of \<^verbatim>\<open>options.sort\<close>.
\<close>

theorem near_order_overridden_by_sort:
  "processNearOperator onTheLine (nearSelector (Point 0) JUndef)
     [docAt ''far'' (Point 2000) 1, docAt ''near'' (Point 100) 2]
   = Inr [docAt ''near'' (Point 100) 2, docAt ''far'' (Point 2000) 1] \<and>
   processFind onTheLine [docAt ''far'' (Point 2000) 1, docAt ''near'' (Point 100) 2]
     (nearSelector (Point 0) JUndef) (JObj [(''sort'', JArr [JStr ''a''])])
   = Inr [docAt ''far'' (Point 2000) 1, docAt ''near'' (Point 100) 2]"
  by (simp add: eval_defs example_defs)

subsection \<open>Multi-geometries in the \<^verbatim>\<open>$geoIntersects\<close> stage\<close>





subsection \<open>Generated identifiers\<close>

lemma trunc_range: "0 \<le> u \<Longrightarrow> u < 1 \<Longrightarrow> 0 \<le> trunc (u * 16) \<and> trunc (u * 16) < 16"
  by (simp add: trunc_def floor_less_iff)

lemma small_int_cases:
  "0 \<le> (k::int) \<Longrightarrow> k < 16 \<Longrightarrow>
   k = 0 \<or> k = 1 \<or> k = 2 \<or> k = 3 \<or> k = 4 \<or> k = 5 \<or> k = 6 \<or> k = 7 \<or>
   k = 8 \<or> k = 9 \<or> k = 10 \<or> k = 11 \<or> k = 12 \<or> k = 13 \<or> k = 14 \<or> k = 15"
  by arith

lemma hex_of_small:
  assumes "0 \<le> (k::int)" "k < 16"
  shows "\<exists>c. toString16 (sint (word_of_int k :: 32 word)) = [c] \<and> c \<in> set ''0123456789abcdef''"
  using small_int_cases [OF assms]
  by (elim disjE) (simp_all add: toString16_def hexDigits.simps hexChar_def)

lemma variant_of_small:
  assumes "0 \<le> (k::int)" "k < 16"
  shows "\<exists>c. toString16 (sint (((word_of_int k :: 32 word) AND 3) OR 8)) = [c] \<and>
             c \<in> {CHR ''8'', CHR ''9'', CHR ''a'', CHR ''b''}"
  using small_int_cases [OF assms]
  by (elim disjE) (simp_all add: toString16_def hexDigits.simps hexChar_def)


lemma uidDigit_x:
  assumes "0 \<le> u" "u < 1"
  shows "\<exists>c. uidDigit (CHR ''x'') u = [c] \<and> c \<in> set ''0123456789abcdef''"
  using hex_of_small [of "trunc (u * 16)"] trunc_range [OF assms]
  by (simp add: uidDigit_def toInt32_def)

lemma uidDigit_y:
  assumes "0 \<le> u" "u < 1"
  shows "\<exists>c. uidDigit (CHR ''y'') u = [c] \<and> c \<in> {CHR ''8'', CHR ''9'', CHR ''a'', CHR ''b''}"
  using variant_of_small [of "trunc (u * 16)"] trunc_range [OF assms]
  by (simp add: uidDigit_def toInt32_def)

lemma uidDigit_single:
  assumes "0 \<le> u" "u < 1" "c = CHR ''x'' \<or> c = CHR ''y''"
  shows "\<exists>d. uidDigit c u = [d] \<and> d \<in> set ''0123456789abcdef'' \<and>
             (c = CHR ''y'' \<longrightarrow> d \<in> {CHR ''8'', CHR ''9'', CHR ''a'', CHR ''b''})"
proof (cases "c = CHR ''x''")
  case True
  with uidDigit_x [OF assms(1,2)] show ?thesis by simp
next
  case False
  with assms(3) have "c = CHR ''y''" by simp
  with uidDigit_y [OF assms(1,2)] show ?thesis by fastforce
qed

text \<open>What \<^verbatim>\<open>replace\<close> does to a template, character by character.\<close>

lemma replaceXY_length:
  assumes "\<forall>n. 0 \<le> rand n \<and> rand n < 1"
  shows "length (fst (replaceXY rand i t)) = length t"
proof (induction t arbitrary: i)
  case Nil
  then show ?case by simp
next
  case (Cons c t)
  show ?case
  proof (cases "c = CHR ''x'' \<or> c = CHR ''y''")
    case True
    with uidDigit_single [of "rand i" c] assms obtain d where "uidDigit c (rand i) = [d]" by blast
    with True Cons show ?thesis by (simp add: case_prod_beta)
  next
    case False
    with Cons show ?thesis by (simp add: case_prod_beta)
  qed
qed

lemma replaceXY_nth:
  assumes "\<forall>n. 0 \<le> rand n \<and> rand n < 1" and "j < length t"
  shows "(t ! j \<noteq> CHR ''x'' \<and> t ! j \<noteq> CHR ''y'' \<longrightarrow> fst (replaceXY rand i t) ! j = t ! j) \<and>
         (t ! j = CHR ''x'' \<longrightarrow> fst (replaceXY rand i t) ! j \<in> set ''0123456789abcdef'') \<and>
         (t ! j = CHR ''y'' \<longrightarrow> fst (replaceXY rand i t) ! j \<in> {CHR ''8'', CHR ''9'', CHR ''a'', CHR ''b''})"
  using assms(2)
proof (induction t arbitrary: i j)
  case Nil
  then show ?case by simp
next
  case (Cons c t)
  show ?case
  proof (cases "c = CHR ''x'' \<or> c = CHR ''y''")
    case True
    with uidDigit_single [of "rand i" c] assms(1) obtain d where
      d: "uidDigit c (rand i) = [d]" "d \<in> set ''0123456789abcdef''"
         "c = CHR ''y'' \<longrightarrow> d \<in> {CHR ''8'', CHR ''9'', CHR ''a'', CHR ''b''}" by blast
    show ?thesis
    proof (cases j)
      case 0
      with True d show ?thesis by (auto simp: case_prod_beta)
    next
      case (Suc j')
      with Cons.prems have "j' < length t" by simp
      from Cons.IH [OF this, of "Suc i"] True d Suc show ?thesis by (simp add: case_prod_beta)
    qed
  next
    case False
    show ?thesis
    proof (cases j)
      case 0
      with False show ?thesis by (simp add: case_prod_beta)
    next
      case (Suc j')
      with Cons.prems have "j' < length t" by simp
      from Cons.IH [OF this, of i] False Suc show ?thesis by (simp add: case_prod_beta)
    qed
  qed
qed

lemma replaceXY_draws:
  "snd (replaceXY rand i t) = i + length (filter (\<lambda>c. c = CHR ''x'' \<or> c = CHR ''y'') t)"
  by (induction t arbitrary: i) (simp_all add: case_prod_beta)



lemma template_chars:
  "j < 32 \<Longrightarrow> ''xxxxxxxxxxxx4xxxyxxxxxxxxxxxxxxx'' ! j \<in> {CHR ''x'', CHR ''y'', CHR ''4''}"
proof -
  assume "j < 32"
  then have "j < length ''xxxxxxxxxxxx4xxxyxxxxxxxxxxxxxxx''" by simp
  then have "''xxxxxxxxxxxx4xxxyxxxxxxxxxxxxxxx'' ! j \<in> set ''xxxxxxxxxxxx4xxxyxxxxxxxxxxxxxxx''"
    by (rule nth_mem)
  then show ?thesis unfolding list.set by blast
qed

lemma createUid_length:
  "\<forall>n. 0 \<le> rand n \<and> rand n < 1 \<Longrightarrow> length (fst (createUid rand i)) = 32"
  unfolding createUid_def by (subst replaceXY_length) (simp_all del: replaceXY.simps)

lemma createUid_nth:
  assumes "\<forall>n. 0 \<le> rand n \<and> rand n < 1" "j < 32"
  shows "fst (createUid rand i) ! j \<in> set ''0123456789abcdef''"
proof -
  let ?t = "''xxxxxxxxxxxx4xxxyxxxxxxxxxxxxxxx''"
  have jt: "j < length ?t" using assms(2) by simp
  note n = replaceXY_nth [OF assms(1) jt, of i]
  from template_chars [OF assms(2)] consider "?t ! j = CHR ''x''" | "?t ! j = CHR ''y''" | "?t ! j = CHR ''4''"
    by blast
  then show ?thesis
  proof cases
    case 1
    with n show ?thesis unfolding createUid_def by blast
  next
    case 2
    with n have "fst (replaceXY rand i ?t) ! j \<in> {CHR ''8'', CHR ''9'', CHR ''a'', CHR ''b''}" by blast
    then show ?thesis unfolding createUid_def by (auto simp del: replaceXY.simps)
  next
    case 3
    with n have "fst (replaceXY rand i ?t) ! j = CHR ''4''" by (simp del: replaceXY.simps)
    then show ?thesis unfolding createUid_def by (simp del: replaceXY.simps)
  qed
qed

lemma createUid_draws: "snd (createUid rand i) = i + 31"
  unfolding createUid_def by (subst replaceXY_draws) (simp del: replaceXY.simps)

lemma uid_half: "createUid (\<lambda>n. 1 / 2) i = (''88888888888848888888888888888888'', i + 31)"
  by (simp add: createUid_def uidDigit_def toInt32_def trunc_def toString16_def hexDigits.simps hexChar_def)

text \<open>
  C10. Whatever numbers \<^verbatim>\<open>Math.random\<close> draws from its range, the identifier
  \<^verbatim>\<open>createUid\<close> returns has 32 characters, all of them lowercase hexadecimal
  digits, the character at index 12 is \<^verbatim>\<open>4\<close> and the character at index 16 is
  one of \<^verbatim>\<open>8\<close>, \<^verbatim>\<open>9\<close>, \<^verbatim>\<open>a\<close>, \<^verbatim>\<open>b\<close>; it takes 31 draws. This is the
  identifier \<^verbatim>\<open>regularizeUpsert\<close> stores under \<^verbatim>\<open>_id\<close> in a document that had
  none.
\<close>

theorem createUid_shape:
  assumes "\<forall>n. 0 \<le> rand n \<and> rand n < 1"
  shows "length (fst (createUid rand i)) = 32 \<and>
         set (fst (createUid rand i)) \<subseteq> set ''0123456789abcdef'' \<and>
         fst (createUid rand i) ! 12 = CHR ''4'' \<and>
         fst (createUid rand i) ! 16 \<in> {CHR ''8'', CHR ''9'', CHR ''a'', CHR ''b''} \<and>
         snd (createUid rand i) = i + 31 \<and>
         (h a = Obj doc \<and> \<not> truthyV (own doc ''_id'') \<longrightarrow>
            regularizeUpsert rand i h (VRef a) (Value VUndef) success error =
              Inr (([(VRef a, VUndef)], success, error), i + 31,
                   h(a := Obj (obj_set doc ''_id'' (VStr (fst (createUid rand i)))))))"
proof (intro conjI)
  let ?t = "''xxxxxxxxxxxx4xxxyxxxxxxxxxxxxxxx''"
  show len: "length (fst (createUid rand i)) = 32"
    by (rule createUid_length [OF assms])
  show "set (fst (createUid rand i)) \<subseteq> set ''0123456789abcdef''"
  proof
    fix c assume "c \<in> set (fst (createUid rand i))"
    then obtain j where j: "j < 32" "fst (createUid rand i) ! j = c"
      using len by (auto simp: in_set_conv_nth)
    with createUid_nth [OF assms j(1), of i] show "c \<in> set ''0123456789abcdef''" by simp
  qed
  have l: "12 < length ?t" "16 < length ?t" by simp_all
  have t: "?t ! 12 = CHR ''4''" "?t ! 16 = CHR ''y''" by simp_all
  from replaceXY_nth [OF assms l(1), of i] t(1)
  show "fst (createUid rand i) ! 12 = CHR ''4''"
    unfolding createUid_def by (simp del: replaceXY.simps)
  from replaceXY_nth [OF assms l(2), of i] t(2)
  show "fst (createUid rand i) ! 16 \<in> {CHR ''8'', CHR ''9'', CHR ''a'', CHR ''b''}"
    unfolding createUid_def by blast
  show "snd (createUid rand i) = i + 31"
    by (rule createUid_draws)
  show "h a = Obj doc \<and> \<not> truthyV (own doc ''_id'') \<longrightarrow>
            regularizeUpsert rand i h (VRef a) (Value VUndef) success error =
              Inr (([(VRef a, VUndef)], success, error), i + 31,
                   h(a := Obj (obj_set doc ''_id'' (VStr (fst (createUid rand i))))))"
    by (simp add: regularizeUpsert_def readId_def createUid_draws)
qed

theorem createUid_shape_witness:
  "fst (createUid (\<lambda>n. 1 / 2) 0) = ''88888888888848888888888888888888'' \<and>
   length (fst (createUid (\<lambda>n. 1 / 2) 0)) = 32 \<and>
   fst (createUid (\<lambda>n. 1 / 2) 0) ! 12 = CHR ''4'' \<and>
   fst (createUid (\<lambda>n. 1 / 2) 0) ! 16 = CHR ''8'' \<and>
   regularizeUpsert (\<lambda>n. 1 / 2) 0 (storeOf [Obj [(''name'', VStr ''A'')]]) (VRef 0) (Value VUndef)
       (Callback (1::nat)) (Callback 2) =
     Inr (([(VRef 0, VUndef)], Callback 1, Callback 2), 31,
          (storeOf [Obj [(''name'', VStr ''A'')]])
            (0 := Obj [(''name'', VStr ''A''), (''_id'', VStr ''88888888888848888888888888888888'')]))"
proof -
  have r: "\<forall>n. 0 \<le> (\<lambda>n. 1 / 2 :: real) n \<and> (\<lambda>n. 1 / 2 :: real) n < 1" by simp
  have n: "storeOf [Obj [(''name'', VStr ''A'')]] 0 = Obj [(''name'', VStr ''A'')]"
    "\<not> truthyV (own [(''name'', VStr ''A'')] ''_id'')"
    by (simp_all add: storeOf_def own_def)
  from createUid_shape [OF r, where i = 0 and h = "storeOf [Obj [(''name'', VStr ''A'')]]" and a = 0
                          and doc = "[(''name'', VStr ''A'')]"
                          and success = "Callback (1::nat)" and error = "Callback 2"] n
  show ?thesis by (simp add: uid_half)
qed

subsection \<open>Upsert parameters\<close>























subsection \<open>Field projection\<close>

text \<open>
  C4. \<^verbatim>\<open>filterFields\<close> takes the inclusion branch only when the first listed
  value is the number \<^verbatim>\<open>1\<close>: the test is \<^verbatim>\<open>=== 1\<close>. With the fields
  \<^verbatim>\<open>{a: true}\<close>, whose first value is truthy, the exclusion branch runs: the
  document \<^verbatim>\<open>{_id: "1", a: 5, b: 6}\<close> comes back without \<^verbatim>\<open>a\<close>, where a
  projection in the style of MongoDB, and the same call with \<^verbatim>\<open>{a: 1}\<close>,
  returns \<^verbatim>\<open>a\<close> and \<^verbatim>\<open>_id\<close> only.
\<close>

theorem truthy_marker_runs_exclusion:
  "truthy (hd (js_values (JObj [(''a'', JBool True)]))) \<and>
   \<not> inclusionMode (JObj [(''a'', JBool True)]) \<and>
   filterFields [JObj [(''_id'', JStr ''1''), (''a'', JNum (Fin 5)), (''b'', JNum (Fin 6))]]
     (JObj [(''a'', JBool True)]) =
     Inr [JObj [(''_id'', JStr ''1''), (''b'', JNum (Fin 6))]] \<and>
   filterFields [JObj [(''_id'', JStr ''1''), (''a'', JNum (Fin 5)), (''b'', JNum (Fin 6))]]
     (JObj [(''a'', JNum (Fin 1))]) =
     Inr [JObj [(''a'', JNum (Fin 5)), (''_id'', JStr ''1'')]]"
  by (simp add: eval_defs noNesting_def writeMember_def)

end
